theory Spec2Isabelle
  imports Complex_Main "HOL-Library.Word" "HOL-Library.Sublist"
begin

section \<open>Audio capture: Float32 to PCM16\<close>

text \<open>
  The two conversion loops of \<^verbatim>\<open>app.js\<close> (in \<^verbatim>\<open>sendPCMDataDirectly\<close> and in the
  \<^verbatim>\<open>onaudioprocess\<close> handler installed by \<^verbatim>\<open>startAudioRecording\<close>) have the same body:
  \<^verbatim>\<open>s = Math.max(-1, Math.min(1, x)); out[i] = s < 0 ? s * 0x8000 : s * 0x7FFF\<close>,
  where \<^verbatim>\<open>out\<close> is an \<^verbatim>\<open>Int16Array\<close>.

  A sample is a Float32 read as a JavaScript number. Every finite Float32 is a dyadic
  rational with a 24-bit significand; its product with \<^verbatim>\<open>0x8000\<close> or \<^verbatim>\<open>0x7FFF\<close> has at
  most 39 significant bits and is therefore exact in double precision. The arithmetic of
  the loop is thus exact arithmetic on finite samples, and samples are modelled
  as \<^typ>\<open>real\<close>. (NaN is outside the model.)

  Storing a number into an \<^verbatim>\<open>Int16Array\<close> applies ECMAScript \<^verbatim>\<open>ToInt16\<close>: truncate
  toward zero, then reduce modulo \<open>2^16\<close> into the signed range.
\<close>

definition js_trunc :: "real \<Rightarrow> int" where
  "js_trunc x = (if x < 0 then \<lceil>x\<rceil> else \<lfloor>x\<rfloor>)"

definition toInt16 :: "real \<Rightarrow> 16 word" where
  "toInt16 x = word_of_int (js_trunc x)"

definition clampSample :: "real \<Rightarrow> real" where
  "clampSample x = max (-1) (min 1 x)"

definition scaleSample :: "real \<Rightarrow> real" where
  "scaleSample s = (if s < 0 then s * 0x8000 else s * 0x7FFF)"

definition float32ToInt16 :: "real \<Rightarrow> 16 word" where
  "float32ToInt16 x = toInt16 (scaleSample (clampSample x))"

text \<open>
  \<^verbatim>\<open>sendPCMDataDirectly\<close>: the frame handed to the socket, if the socket is open.
  \<^verbatim>\<open>onaudioprocess\<close> (4096-sample handler): converts and sends only when the socket
  is open and audio recording is active.
\<close>

definition sendPCMDataDirectly :: "bool \<Rightarrow> real list \<Rightarrow> 16 word list option" where
  "sendPCMDataDirectly wsOpen float32Array =
     (let int16Array = map float32ToInt16 float32Array
      in if wsOpen then Some int16Array else None)"

definition onaudioprocess :: "bool \<Rightarrow> bool \<Rightarrow> real list \<Rightarrow> 16 word list option" where
  "onaudioprocess wsOpen isRecordingAudio inputData =
     (if wsOpen \<and> isRecordingAudio then Some (map float32ToInt16 inputData) else None)"

text \<open>The formula of the specification's testable property, in its own words:
  \<open>round(s * 32768)\<close> clamped to \<open>[-32768, 32767]\<close>.\<close>

definition spec_pcm16 :: "real \<Rightarrow> int" where
  "spec_pcm16 s = max (-32768) (min 32767 (round (s * 32768)))"

section \<open>Strings\<close>

text \<open>
  A JavaScript string is a sequence of UTF-16 code units; \<^verbatim>\<open>length\<close>, \<^verbatim>\<open>includes\<close> and
  regular expressions without the \<^verbatim>\<open>u\<close> flag all work on code units. Every literal of
  the program lies in the Basic Multilingual Plane, one code unit per character.
  Literals are written here by their code units.
\<close>

type_synonym jsstring = "nat list"

text \<open>\<^verbatim>\<open>text.includes(p)\<close>: \<open>p\<close> occurs in \<open>text\<close> as a contiguous block.\<close>

fun js_includes :: "jsstring \<Rightarrow> jsstring \<Rightarrow> bool" where
  "js_includes [] p = (p = [])"
| "js_includes (c # cs) p = (prefix p (c # cs) \<or> js_includes cs p)"

text \<open>The three category labels used as \<^verbatim>\<open>type\<close> of a record
  (U+5B89 U+5168 U+63A5 U+7BA1, U+6548 U+7387 U+63A5 U+7BA1, U+4F53 U+9A8C U+95EE U+9898).\<close>

definition SafetyTakeover :: jsstring where
  "SafetyTakeover = [0x5B89, 0x5168, 0x63A5, 0x7BA1]"

definition EfficiencyTakeover :: jsstring where
  "EfficiencyTakeover = [0x6548, 0x7387, 0x63A5, 0x7BA1]"

definition ExperienceIssue :: jsstring where
  "ExperienceIssue = [0x4F53, 0x9A8C, 0x95EE, 0x9898]"


section \<open>Data model of the recorder\<close>

datatype controller_state = STOPPED | STARTING | RECORDING | PAUSING

text \<open>
  An issue record as built by \<^verbatim>\<open>addRecord\<close>. \<^verbatim>\<open>id\<close> is a \<^verbatim>\<open>Date.now()\<close> reading
  (milliseconds since the epoch). \<^verbatim>\<open>timestamp\<close> is written with \<^verbatim>\<open>toISOString()\<close> and read
  back with \<^verbatim>\<open>new Date(..).getTime()\<close>; that round trip is exact to the millisecond, so
  the field holds the millisecond value.
\<close>

record issue_record =
  r_id :: int
  r_timestamp :: int
  r_type :: jsstring
  r_subType :: jsstring
  r_originalText :: jsstring
  r_sessionId :: int
  r_sessionName :: jsstring

record test_session =
  s_id :: int
  s_name :: jsstring
  s_startTime :: int
  s_endTime :: "int option"
  s_recordCount :: nat

text \<open>
  Calls into the display, persistence, timer and transport collaborators are logged in
  order in \<open>effects\<close>. A message built from a template is kept as the template's tag and
  its parameters.
\<close>

datatype help_response = HelpUsage | HelpTypes | HelpStart | HelpPhrasing | HelpSpeakClearly

datatype debug_msg =
    DbgRecognized jsstring
  | DbgDeleteDone
  | DbgDirectMatch jsstring
  | DbgSmart nat "jsstring list"
  | DbgKeyword nat "jsstring list"
  | DbgHelp help_response
  | DbgNoKeyword jsstring
  | DbgAudioStopped
  | DbgUsingAliyun
  | DbgNotConfigured
  | DbgConnected
  | DbgAuthFailed
  | DbgConnectionLimit
  | DbgClosedNormally
  | DbgConnectionFailed
  | DbgStateReset

datatype notification =
    NoteRecorded jsstring jsstring
  | NoteDeleted jsstring jsstring
  | NoteConfigureFirst
  | NoteTestStarted
  | NoteTestPaused
  | NoteTestStopped "jsstring option"

datatype timer_action = ReInitConnection | DelayedReconnect | ConfigThenStart

datatype ws_message = StartTranscription | StopTranscription

datatype effect =
    ShowDebugInfo debug_msg
  | DisplaySubtitle jsstring
  | ShowNotification notification
  | SaveData
  | SaveSessionData
  | UpdateUI
  | SetTimeout nat timer_action
  | WsSend ws_message
  | MediaRecorderStop
  | InitWebSocketConnection
  | StartAudioRecording
  | ShowConfigModal

text \<open>
  The fields of \<^verbatim>\<open>RoadTestRecorder\<close> that the modelled methods read or write.
  \<open>timerInterval\<close> tells whether a ticker is installed, \<open>mediaRecorderRecording\<close> whether
  \<^verbatim>\<open>mediaRecorder\<close> exists in state \<^verbatim>\<open>'recording'\<close>, \<open>wsOpen\<close> whether \<^verbatim>\<open>websocket\<close> exists
  with \<^verbatim>\<open>readyState === OPEN\<close>, \<open>hasAliyunConfig\<close> whether the three credentials are
  non-empty. \<^verbatim>\<open>maxReconnectAttempts\<close> and \<^verbatim>\<open>connectionRetryDelay\<close> are set once in the
  constructor and never assigned again.
\<close>

record recorder =
  state :: controller_state
  isRecording :: bool
  testData :: "issue_record list"
  testSessions :: "test_session list"
  currentSession :: "test_session option"
  timerInterval :: bool
  startTime :: "int option"
  isRecordingAudio :: bool
  mediaRecorderRecording :: bool
  wsOpen :: bool
  isTranscriptionStarted :: bool
  aliyunConnectionReady :: bool
  hasAliyunConfig :: bool
  wsReconnectAttempts :: nat
  effects :: "effect list"

definition maxReconnectAttempts :: nat where
  "maxReconnectAttempts = 3"

definition connectionRetryDelay :: nat where
  "connectionRetryDelay = 5000"

text \<open>The fields as the constructor leaves them when nothing is stored yet.\<close>

definition initial :: recorder where
  "initial = \<lparr> state = STOPPED, isRecording = False, testData = [], testSessions = [],
     currentSession = None, timerInterval = False, startTime = None,
     isRecordingAudio = False, mediaRecorderRecording = False, wsOpen = False,
     isTranscriptionStarted = False, aliyunConnectionReady = False,
     hasAliyunConfig = False, wsReconnectAttempts = 0, effects = [] \<rparr>"

definition emit :: "effect list \<Rightarrow> recorder \<Rightarrow> recorder" where
  "emit es st = st\<lparr>effects := effects st @ es\<rparr>"


section \<open>Session/Record store\<close>

definition getCurrentSessionRecords :: "recorder \<Rightarrow> issue_record list" where
  "getCurrentSessionRecords st =
     (case currentSession st of
        None \<Rightarrow> []
      | Some cs \<Rightarrow> filter (\<lambda>record. r_sessionId record = s_id cs) (testData st))"

text \<open>
  \<^verbatim>\<open>addRecord(type, subType, originalText)\<close>. The call reads the clock twice:
  \<open>now\<close> is \<^verbatim>\<open>Date.now()\<close> (used for the duplicate check and as \<^verbatim>\<open>id\<close>), \<open>stamp\<close> is the
  later \<^verbatim>\<open>new Date()\<close> written to \<^verbatim>\<open>timestamp\<close>. Both readings are arguments.
\<close>

definition addRecord ::
  "int \<Rightarrow> int \<Rightarrow> jsstring \<Rightarrow> jsstring \<Rightarrow> jsstring \<Rightarrow> recorder \<Rightarrow> recorder" where
  "addRecord now stamp ty subTy originalText st =
     (case currentSession st of
        None \<Rightarrow> st
      | Some cs \<Rightarrow>
          (case find (\<lambda>record. r_type record = ty \<and> r_subType record = subTy
                         \<and> now - r_timestamp record < 5000)
                     (getCurrentSessionRecords st) of
             Some recentSimilar \<Rightarrow> st
           | None \<Rightarrow>
               (let record = \<lparr> r_id = now, r_timestamp = stamp, r_type = ty,
                               r_subType = subTy, r_originalText = originalText,
                               r_sessionId = s_id cs, r_sessionName = s_name cs \<rparr>
                in emit [SaveData, UpdateUI, ShowNotification (NoteRecorded ty subTy)]
                     (st\<lparr>testData := testData st @ [record]\<rparr>))))"

definition deleteLastRecord :: "recorder \<Rightarrow> recorder" where
  "deleteLastRecord st =
     (if testData st = [] then st
      else (let lastRecord = last (testData st)
            in emit [SaveData, UpdateUI,
                     ShowNotification (NoteDeleted (r_type lastRecord) (r_subType lastRecord))]
                 (st\<lparr>testData := butlast (testData st)\<rparr>)))"

text \<open>A run of \<^verbatim>\<open>addRecord\<close> calls, each with its two clock readings and its arguments.\<close>

fun addRecordCalls ::
  "(int \<times> int \<times> jsstring \<times> jsstring \<times> jsstring) list \<Rightarrow> recorder \<Rightarrow> recorder" where
  "addRecordCalls [] st = st"
| "addRecordCalls ((now, stamp, ty, subTy, txt) # calls) st =
     addRecordCalls calls (addRecord now stamp ty subTy txt st)"


section \<open>Recorder controller\<close>

definition startTimer :: "recorder \<Rightarrow> recorder" where
  "startTimer st = st\<lparr>timerInterval := True\<rparr>"

definition stopTimer :: "recorder \<Rightarrow> recorder" where
  "stopTimer st = (if timerInterval st then st\<lparr>timerInterval := False\<rparr> else st)"

definition sendFinishFrame :: "recorder \<Rightarrow> recorder" where
  "sendFinishFrame st =
     (if wsOpen st \<and> isTranscriptionStarted st
      then (emit [WsSend StopTranscription] st)\<lparr>isTranscriptionStarted := False\<rparr>
      else st)"

text \<open>\<^verbatim>\<open>stopAudioRecording\<close>; \<^verbatim>\<open>audioProcessInterval\<close> is never assigned a timer anywhere in the
  program, so its branch is dead.\<close>

definition stopAudioRecording :: "recorder \<Rightarrow> recorder" where
  "stopAudioRecording st =
     (let st1 = st\<lparr>isRecordingAudio := False\<rparr>;
          st2 = (if mediaRecorderRecording st1
                 then (emit [MediaRecorderStop] st1)\<lparr>mediaRecorderRecording := False\<rparr>
                 else st1);
          st3 = sendFinishFrame st2
      in emit [ShowDebugInfo DbgAudioStopped] st3)"

text \<open>
  \<^verbatim>\<open>startTest\<close>. Its clock readings are arguments: \<open>sessionId\<close> (\<^verbatim>\<open>Date.now()\<close>),
  \<open>sessionName\<close> (the name \<^verbatim>\<open>generateSessionName\<close> formats from the local time),
  \<open>startIso\<close> (\<^verbatim>\<open>new Date().toISOString()\<close>) and \<open>startMs\<close> (the second \<^verbatim>\<open>Date.now()\<close>).
  The bodies of the asynchronous \<^verbatim>\<open>initWebSocketConnection\<close> and \<^verbatim>\<open>startAudioRecording\<close>
  are not part of the model; the calls are logged.
\<close>

definition startTest :: "int \<Rightarrow> jsstring \<Rightarrow> int \<Rightarrow> int \<Rightarrow> recorder \<Rightarrow> recorder" where
  "startTest sessionId sessionName startIso startMs st =
     (if isRecording st \<or> state st \<noteq> STOPPED then st
      else
        (let st1 = st\<lparr>state := STARTING\<rparr>;
             st2 = st1\<lparr>currentSession :=
                          Some \<lparr> s_id = sessionId, s_name = sessionName, s_startTime = startIso,
                                 s_endTime = None, s_recordCount = 0 \<rparr>\<rparr>;
             st3 = st2\<lparr>isRecording := True, state := RECORDING, startTime := Some startMs\<rparr>;
             st4 = startTimer st3;
             st5 = (if hasAliyunConfig st4
                    then emit ([ShowDebugInfo DbgUsingAliyun]
                               @ (if \<not> aliyunConnectionReady st4 then [InitWebSocketConnection] else [])
                               @ [StartAudioRecording]) st4
                    else emit [ShowDebugInfo DbgNotConfigured, ShowNotification NoteConfigureFirst,
                               ShowConfigModal, SetTimeout 1000 ConfigThenStart] st4)
         in emit [UpdateUI, ShowNotification NoteTestStarted] st5))"

definition pauseTest :: "recorder \<Rightarrow> recorder" where
  "pauseTest st =
     (if \<not> isRecording st \<or> state st \<noteq> RECORDING then st
      else
        (let st1 = st\<lparr>state := PAUSING, isRecording := False\<rparr>;
             st2 = stopTimer st1;
             st3 = stopAudioRecording st2;
             st4 = st3\<lparr>state := STOPPED\<rparr>
         in emit [UpdateUI, ShowNotification NoteTestPaused] st4))"

text \<open>\<^verbatim>\<open>stopTest\<close>; \<open>endIso\<close> is the \<^verbatim>\<open>new Date().toISOString()\<close> reading. The history
  receives a copy of the session object (\<^verbatim>\<open>{ ...this.currentSession }\<close>).\<close>

definition stopTest :: "int \<Rightarrow> recorder \<Rightarrow> recorder" where
  "stopTest endIso st =
     (if \<not> isRecording st then st
      else
        (let st1 = st\<lparr>state := PAUSING, isRecording := False\<rparr>;
             st2 = stopTimer st1;
             st3 = (case currentSession st2 of
                      None \<Rightarrow> st2
                    | Some cs \<Rightarrow>
                        (let cs1 = cs\<lparr>s_endTime := Some endIso\<rparr>;
                             cs2 = cs1\<lparr>s_recordCount :=
                                     length (getCurrentSessionRecords
                                               (st2\<lparr>currentSession := Some cs1\<rparr>))\<rparr>
                         in emit [SaveSessionData]
                              (st2\<lparr>currentSession := Some cs2,
                                   testSessions := testSessions st2 @ [cs2]\<rparr>)));
             st4 = stopAudioRecording st3;
             st5 = st4\<lparr>state := STOPPED\<rparr>
         in emit [UpdateUI,
                  ShowNotification (NoteTestStopped (map_option s_name (currentSession st5)))]
              st5))"


text \<open>\<^verbatim>\<open>resetState\<close>, the emergency reset exposed on \<^verbatim>\<open>window\<close>.\<close>

definition resetState :: "recorder \<Rightarrow> recorder" where
  "resetState st =
     (let st1 = st\<lparr>state := STOPPED, isRecording := False, isRecordingAudio := False\<rparr>;
          st2 = (if timerInterval st1 then st1\<lparr>timerInterval := False\<rparr> else st1)
      in emit [UpdateUI, ShowDebugInfo DbgStateReset] st2)"


section \<open>Transport session: close handling and reconnection\<close>

definition ascii :: "string \<Rightarrow> jsstring" where
  "ascii s = map of_char s"

definition handleWebSocketReconnect :: "recorder \<Rightarrow> recorder" where
  "handleWebSocketReconnect st =
     (if wsReconnectAttempts st < maxReconnectAttempts
      then (let st1 = st\<lparr>wsReconnectAttempts := wsReconnectAttempts st + 1\<rparr>
            in emit [SetTimeout (2000 * wsReconnectAttempts st1) ReInitConnection] st1)
      else emit [ShowDebugInfo DbgConnectionFailed] st)"

text \<open>The \<^verbatim>\<open>onclose\<close> handler installed by \<^verbatim>\<open>initWebSocketConnection\<close>, for a close event
  with the given \<^verbatim>\<open>code\<close> and \<^verbatim>\<open>reason\<close>.\<close>

definition onclose :: "nat \<Rightarrow> jsstring \<Rightarrow> recorder \<Rightarrow> recorder" where
  "onclose code reason st =
     (let st1 = st\<lparr>aliyunConnectionReady := False\<rparr>
      in if code = 4402 then emit [ShowDebugInfo DbgAuthFailed] st1
         else if code = 1006 \<or> js_includes reason (ascii ''over max connect limit'')
         then emit [ShowDebugInfo DbgConnectionLimit,
                    SetTimeout connectionRetryDelay DelayedReconnect] st1
         else if code = 1000 then emit [ShowDebugInfo DbgClosedNormally] st1
         else handleWebSocketReconnect st1)"

definition sendStartMessage :: "recorder \<Rightarrow> recorder" where
  "sendStartMessage st =
     (if wsOpen st then (emit [WsSend StartTranscription] st)\<lparr>isTranscriptionStarted := True\<rparr>
      else st)"

definition onopen :: "recorder \<Rightarrow> recorder" where
  "onopen st =
     sendStartMessage
       ((emit [ShowDebugInfo DbgConnected] st)
          \<lparr>aliyunConnectionReady := True, wsReconnectAttempts := 0\<rparr>)"

text \<open>
  The events the handlers react to. The browser delivers the open event with
  \<^verbatim>\<open>readyState === OPEN\<close>, so \<open>wsOpen\<close> holds when \<^verbatim>\<open>onopen\<close> runs.
  A timer set by the handlers above fires: the reconnect timer calls
  \<^verbatim>\<open>initWebSocketConnection\<close> (logged; it does not touch the attempt counter), the
  connection-limit timer calls \<^verbatim>\<open>handleWebSocketReconnect\<close>.
\<close>

datatype ws_event = Close nat jsstring | Open | TimerFired timer_action

fun wsStep :: "ws_event \<Rightarrow> recorder \<Rightarrow> recorder" where
  "wsStep (Close code reason) st = onclose code reason st"
| "wsStep Open st = onopen (st\<lparr>wsOpen := True\<rparr>)"
| "wsStep (TimerFired ReInitConnection) st = emit [InitWebSocketConnection] st"
| "wsStep (TimerFired DelayedReconnect) st = handleWebSocketReconnect st"
| "wsStep (TimerFired ConfigThenStart) st = emit [InitWebSocketConnection, StartAudioRecording] st"

fun wsRun :: "ws_event list \<Rightarrow> recorder \<Rightarrow> recorder" where
  "wsRun [] st = st"
| "wsRun (e # es) st = wsRun es (wsStep e st)"

text \<open>An abnormal close in the sense of the reconnect policy: not the authentication
  code, not a connection-limit signal, not a normal close.\<close>

definition abnormalClose :: "nat \<Rightarrow> jsstring \<Rightarrow> bool" where
  "abnormalClose code reason \<longleftrightarrow>
     code \<noteq> 4402 \<and> code \<noteq> 1006 \<and> code \<noteq> 1000
     \<and> \<not> js_includes reason (ascii ''over max connect limit'')"


section \<open>Transcript classifier\<close>

subsection \<open>String primitives\<close>

text \<open>The regular-expression class \<^verbatim>\<open>\s\<close> of ECMAScript (white space and line
  terminators); \<^verbatim>\<open>trim\<close> strips the same code units.\<close>

definition isWhiteSpace :: "nat \<Rightarrow> bool" where
  "isWhiteSpace c \<longleftrightarrow>
     (0x09 \<le> c \<and> c \<le> 0x0D) \<or> c = 0x20 \<or> c = 0xA0 \<or> c = 0x1680
     \<or> (0x2000 \<le> c \<and> c \<le> 0x200A) \<or> c = 0x2028 \<or> c = 0x2029 \<or> c = 0x202F
     \<or> c = 0x205F \<or> c = 0x3000 \<or> c = 0xFEFF"

text \<open>The class removed first by \<^verbatim>\<open>directTypeMatching\<close>: \<^verbatim>\<open>\s\<close> together with
  U+00A0, U+1680, U+2000 to U+200A, U+2028, U+2029, U+202F, U+205F and U+3000.\<close>

definition isSpaceClass :: "nat \<Rightarrow> bool" where
  "isSpaceClass c \<longleftrightarrow>
     isWhiteSpace c \<or> c = 0xA0 \<or> c = 0x1680 \<or> (0x2000 \<le> c \<and> c \<le> 0x200A)
     \<or> c = 0x2028 \<or> c = 0x2029 \<or> c = 0x202F \<or> c = 0x205F \<or> c = 0x3000"

text \<open>The punctuation class removed next: fullwidth and ASCII comma, full stop,
  exclamation mark, question mark, semicolon, colon; the ASCII double and single quote;
  corner brackets, lenticular brackets, fullwidth and ASCII parentheses.\<close>

definition isPunctuation :: "nat \<Rightarrow> bool" where
  "isPunctuation c \<longleftrightarrow>
     c \<in> set [0xFF0C, 0x2C, 0x3002, 0x2E, 0xFF01, 0x21, 0xFF1F, 0x3F, 0xFF1B, 0x3B,
               0xFF1A, 0x3A, 0x22, 0x27, 0x300C, 0x300D, 0x3010, 0x3011, 0xFF08, 0xFF09,
               0x28, 0x29]"

text \<open>
  \<^verbatim>\<open>toLowerCase\<close> on the letters \<open>A\<close> to \<open>Z\<close>; other code units are kept. The Unicode case
  mappings outside ASCII are not modelled: the ideographs of the patterns have no case,
  and no pattern contains a letter that a non-ASCII code unit lower-cases to.
\<close>

definition toLowerCase :: "jsstring \<Rightarrow> jsstring" where
  "toLowerCase s = map (\<lambda>c. if 0x41 \<le> c \<and> c \<le> 0x5A then c + 0x20 else c) s"

definition js_trim :: "jsstring \<Rightarrow> jsstring" where
  "js_trim s = rev (dropWhile isWhiteSpace (rev (dropWhile isWhiteSpace s)))"

text \<open>
  \<^verbatim>\<open>text.match(/(a1|a2|...)/)\<close> for literal alternatives: the leftmost position where an
  alternative matches, and there the first alternative in order; the result is the
  matched text \<^verbatim>\<open>match[0]\<close>.
\<close>

fun regexAlt :: "jsstring list \<Rightarrow> jsstring \<Rightarrow> jsstring option" where
  "regexAlt alts [] = find (\<lambda>a. prefix a []) alts"
| "regexAlt alts (c # cs) =
     (case find (\<lambda>a. prefix a (c # cs)) alts of
        Some a \<Rightarrow> Some a
      | None \<Rightarrow> regexAlt alts cs)"

text \<open>
  The keyword expression \<^verbatim>\<open>/<label>[-\uFF0D]([^...\s]+)/\<close>: the label, a hyphen-minus or a
  fullwidth hyphen-minus, then the longest non-empty run of code units outside the
  excluded class (fullwidth and ASCII comma, semicolon, full stop, exclamation mark, and
  white space).
\<close>

definition isDelimiter :: "nat \<Rightarrow> bool" where
  "isDelimiter c \<longleftrightarrow> c = 0x2D \<or> c = 0xFF0D"

definition isKeywordStop :: "nat \<Rightarrow> bool" where
  "isKeywordStop c \<longleftrightarrow>
     c \<in> set [0xFF0C, 0x2C, 0xFF1B, 0x3B, 0x3002, 0x2E, 0x21, 0xFF01] \<or> isWhiteSpace c"

definition keywordAt :: "jsstring \<Rightarrow> jsstring \<Rightarrow> jsstring option" where
  "keywordAt label s =
     (if prefix label s then
        (case drop (length label) s of
           [] \<Rightarrow> None
         | d # rest \<Rightarrow>
             (if isDelimiter d then
                (let run = takeWhile (\<lambda>c. \<not> isKeywordStop c) rest
                 in if run = [] then None else Some (label @ [d] @ run))
              else None))
      else None)"

text \<open>With the \<^verbatim>\<open>g\<close> flag \<^verbatim>\<open>match\<close> returns all matches from left to right, each search
  resuming where the previous match ended (one code unit further after an empty match).\<close>

fun keywordMatches :: "jsstring \<Rightarrow> jsstring \<Rightarrow> jsstring list" where
  "keywordMatches label [] = []"
| "keywordMatches label (c # cs) =
     (case keywordAt label (c # cs) of
        Some m \<Rightarrow> m # keywordMatches label (drop (length m - 1) cs)
      | None \<Rightarrow> keywordMatches label cs)"

text \<open>\<^verbatim>\<open>match.replace(/<label>[-\uFF0D]/, '')\<close>: the first occurrence of the label
  followed by a delimiter is removed.\<close>

fun removeLabel :: "jsstring \<Rightarrow> jsstring \<Rightarrow> jsstring" where
  "removeLabel label [] = []"
| "removeLabel label (c # cs) =
     (if prefix label (c # cs) \<and> drop (length label) (c # cs) \<noteq> []
         \<and> isDelimiter (hd (drop (length label) (c # cs)))
      then drop (length label + 1) (c # cs)
      else c # removeLabel label cs)"

subsection \<open>Control phrases and pattern tables\<close>

text \<open>The delete phrase (U+5220 U+9664 U+4E0A U+4E00 U+6761) and the undo phrase
  (U+64A4 U+9500) tested first by \<^verbatim>\<open>processVoiceInput\<close>.\<close>

definition deletePhrase :: jsstring where
  "deletePhrase = [0x5220, 0x9664, 0x4E0A, 0x4E00, 0x6761]"

definition undoPhrase :: jsstring where
  "undoPhrase = [0x64A4, 0x9500]"

text \<open>The table \<^verbatim>\<open>directMatches\<close> of \<^verbatim>\<open>directTypeMatching\<close>: per category the patterns,
  the type and the subType, in source order.\<close>

definition directMatches :: "(jsstring list \<times> jsstring \<times> jsstring) list" where
  "directMatches =
     [([[0x5B89, 0x5168, 0x63A5, 0x7BA1], [0x5B89, 0x5168, 0x95EE, 0x9898],
        [0x5B89, 0x5168], [0x0073, 0x0061, 0x0066, 0x0065, 0x0074, 0x0079],
        [0x63A5, 0x7BA1, 0x5B89, 0x5168], [0x5B89, 0x5168, 0x7684, 0x63A5, 0x7BA1],
        [0x5B89, 0x5168, 0x4E8B, 0x4EF6], [0x5B89, 0x5168, 0x72B6, 0x51B5],
        [0x5B89, 0x5168, 0x60C5, 0x51B5]],
       SafetyTakeover, SafetyTakeover),
      ([[0x6548, 0x7387, 0x63A5, 0x7BA1], [0x6548, 0x7387, 0x95EE, 0x9898],
        [0x6548, 0x7387],
        [0x0065, 0x0066, 0x0066, 0x0069, 0x0063, 0x0069, 0x0065, 0x006E, 0x0063, 0x0079],
        [0x63A5, 0x7BA1, 0x6548, 0x7387], [0x6548, 0x7387, 0x7684, 0x63A5, 0x7BA1],
        [0x6548, 0x7387, 0x4E8B, 0x4EF6], [0x6548, 0x7387, 0x72B6, 0x51B5],
        [0x6548, 0x7387, 0x60C5, 0x51B5]],
       EfficiencyTakeover, EfficiencyTakeover),
      ([[0x4F53, 0x9A8C, 0x95EE, 0x9898], [0x4F53, 0x9A8C],
        [0x0065, 0x0078, 0x0070, 0x0065, 0x0072, 0x0069, 0x0065, 0x006E, 0x0063, 0x0065],
        [0x4F53, 0x9A8C, 0x4E0D, 0x597D], [0x4F53, 0x9A8C, 0x4E8B, 0x4EF6],
        [0x4F53, 0x9A8C, 0x72B6, 0x51B5], [0x4F53, 0x9A8C, 0x60C5, 0x51B5],
        [0x7528, 0x6237, 0x4F53, 0x9A8C]],
       ExperienceIssue, ExperienceIssue)]"

text \<open>The table \<^verbatim>\<open>fuzzyMatches\<close>: patterns, type, subType and \<^verbatim>\<open>minLength\<close>.\<close>

definition fuzzyMatches :: "(jsstring list \<times> jsstring \<times> jsstring \<times> nat) list" where
  "fuzzyMatches =
     [([[0x5B89, 0x5168]], SafetyTakeover, SafetyTakeover, 2),
      ([[0x6548, 0x7387]], EfficiencyTakeover, EfficiencyTakeover, 2),
      ([[0x4F53, 0x9A8C]], ExperienceIssue, ExperienceIssue, 2)]"

text \<open>The three tables of \<^verbatim>\<open>smartRecognitionMultiple\<close>: per pattern the alternatives of
  its expression, in order, and the subType.\<close>

definition experiencePatterns :: "(jsstring list \<times> jsstring) list" where
  "experiencePatterns =
     [([[0x753B, 0x9F99], [0x753B, 0x86C7], [0x9F99], [0x86C7, 0x884C], [0x6446, 0x5C3E],
        [0x5DE6, 0x53F3, 0x6446], [0x6447, 0x6446]],
       [0x753B, 0x9F99]),
      ([[0x91CD, 0x5239], [0x5239, 0x8F66, 0x91CD], [0x6025, 0x5239],
        [0x5236, 0x52A8, 0x91CD], [0x5239, 0x8F66], [0x6025, 0x505C],
        [0x7A81, 0x7136, 0x5239, 0x8F66]],
       [0x91CD, 0x5239]),
      ([[0x6025, 0x52A0, 0x901F], [0x52A0, 0x901F, 0x6025], [0x51B2, 0x51FB],
        [0x7A81, 0x7136, 0x52A0, 0x901F], [0x731B, 0x52A0, 0x901F], [0x63D0, 0x901F, 0x5FEB]],
       [0x6025, 0x52A0, 0x901F]),
      ([[0x98A0, 0x7C38], [0x9707, 0x52A8], [0x4E0D, 0x5E73, 0x7A33], [0x6296, 0x52A8],
        [0x6447, 0x6643], [0x6643, 0x52A8], [0x4E0D, 0x7A33]],
       [0x98A0, 0x7C38]),
      ([[0x8F6C, 0x5411, 0x91CD], [0x65B9, 0x5411, 0x76D8, 0x91CD],
        [0x6253, 0x65B9, 0x5411, 0x91CD], [0x65B9, 0x5411, 0x91CD],
        [0x8F6C, 0x5411, 0x6C89], [0x6253, 0x65B9, 0x5411, 0x6C89]],
       [0x8F6C, 0x5411, 0x91CD])]"

definition efficiencyPatterns :: "(jsstring list \<times> jsstring) list" where
  "efficiencyPatterns =
     [([[0x5361, 0x6B7B], [0x5361, 0x4F4F], [0x4E0D, 0x52A8], [0x505C, 0x4F4F],
        [0x5361, 0x987F], [0x6B7B, 0x673A], [0x505C, 0x8F66], [0x4E0D, 0x8D70]],
       [0x5361, 0x6B7B, 0x4E0D, 0x52A8]),
      ([[0x6162], [0x9F9F, 0x901F], [0x592A, 0x6162], [0x901F, 0x5EA6, 0x6162],
        [0x5F88, 0x6162], [0x8D85, 0x6162], [0x5F00, 0x5F97, 0x6162],
        [0x8DD1, 0x5F97, 0x6162]],
       [0x901F, 0x5EA6, 0x8FC7, 0x6162]),
      ([[0x53CD, 0x5E94, 0x6162], [0x8FDF, 0x949D], [0x5EF6, 0x8FDF],
        [0x53CD, 0x5E94, 0x8FDF, 0x949D], [0x54CD, 0x5E94, 0x6162], [0x6162, 0x534A, 0x62CD]],
       [0x53CD, 0x5E94, 0x8FDF, 0x949D]),
      ([[0x8DEF, 0x5F84, 0x9519, 0x8BEF], [0x8D70, 0x9519], [0x8DEF, 0x7EBF, 0x9519],
        [0x8DEF, 0x5F84, 0x9519], [0x8D70, 0x9519, 0x8DEF], [0x7EBF, 0x8DEF, 0x9519]],
       [0x8DEF, 0x5F84, 0x9519, 0x8BEF]),
      ([[0x6548, 0x7387, 0x63A5, 0x7BA1], [0x6548, 0x7387, 0x95EE, 0x9898],
        [0x6548, 0x7387],
        [0x0065, 0x0066, 0x0066, 0x0069, 0x0063, 0x0069, 0x0065, 0x006E, 0x0063, 0x0079]],
       [0x6548, 0x7387, 0x63A5, 0x7BA1])]"

definition safetyPatterns :: "(jsstring list \<times> jsstring) list" where
  "safetyPatterns =
     [([[0x78B0, 0x649E], [0x649E], [0x5371, 0x9669], [0x8981, 0x649E], [0x5FEB, 0x649E],
        [0x649E, 0x8F66], [0x78B0, 0x8F66]],
       [0x78B0, 0x649E, 0x98CE, 0x9669]),
      ([[0x538B, 0x7EBF], [0x8D8A, 0x7EBF], [0x8DE8, 0x7EBF], [0x8E29, 0x7EBF],
        [0x51FA, 0x7EBF], [0x8FC7, 0x7EBF]],
       [0x538B, 0x7EBF]),
      ([[0x9006, 0x884C], [0x53CD, 0x5411], [0x5F00, 0x53CD, 0x4E86], [0x8D70, 0x53CD],
        [0x65B9, 0x5411, 0x53CD]],
       [0x9006, 0x884C]),
      ([[0x95EF, 0x7EA2, 0x706F], [0x7EA2, 0x706F], [0x51B2, 0x7EA2, 0x706F],
        [0x95EF, 0x706F]],
       [0x95EF, 0x7EA2, 0x706F]),
      ([[0x5B89, 0x5168, 0x63A5, 0x7BA1], [0x5B89, 0x5168, 0x95EE, 0x9898],
        [0x5B89, 0x5168], [0x0073, 0x0061, 0x0066, 0x0065, 0x0074, 0x0079]],
       [0x5B89, 0x5168, 0x63A5, 0x7BA1])]"

text \<open>The table \<^verbatim>\<open>questionPatterns\<close> of \<^verbatim>\<open>handleUserQuestions\<close>, each group with the tag
  of its response.\<close>

definition questionPatterns :: "(jsstring list \<times> help_response) list" where
  "questionPatterns =
     [([[0x6211, 0x60F3, 0x77E5, 0x9053], [0x60F3, 0x77E5, 0x9053], [0x600E, 0x4E48],
        [0x5982, 0x4F55], [0x4EC0, 0x4E48], [0x5E2E, 0x52A9], [0x5E2E, 0x6211],
        [0x6211, 0x4E0D, 0x77E5, 0x9053], [0x4E0D, 0x77E5, 0x9053]],
       HelpUsage),
      ([[0x6709, 0x4EC0, 0x4E48], [0x90FD, 0x6709, 0x4EC0, 0x4E48],
        [0x652F, 0x6301, 0x4EC0, 0x4E48], [0x53EF, 0x4EE5, 0x8BF4, 0x4EC0, 0x4E48]],
       HelpTypes),
      ([[0x6D4B, 0x8BD5], [0x5F00, 0x59CB], [0x5F00, 0x59CB, 0x6D4B, 0x8BD5],
        [0x600E, 0x4E48, 0x5F00, 0x59CB]],
       HelpStart),
      ([[0x8BF4, 0x4EC0, 0x4E48], [0x600E, 0x4E48, 0x8BF4], [0x683C, 0x5F0F],
        [0x600E, 0x4E48, 0x64CD, 0x4F5C]],
       HelpPhrasing)]"

subsection \<open>The strategies\<close>

definition directTypeMatching :: "jsstring \<Rightarrow> (jsstring \<times> jsstring) option" where
  "directTypeMatching text =
     (let cleanText = js_trim (toLowerCase
                        (filter (\<lambda>c. \<not> isPunctuation c) (filter (\<lambda>c. \<not> isSpaceClass c) text)))
      in case find (\<lambda>(patterns, ty, subTy).
                      list_ex (\<lambda>pattern.
                         (let cleanPattern = filter (\<lambda>c. \<not> isSpaceClass c) (toLowerCase pattern)
                          in cleanText = cleanPattern \<or> js_includes cleanText cleanPattern))
                        patterns)
                   directMatches of
           Some (patterns, ty, subTy) \<Rightarrow> Some (ty, subTy)
         | None \<Rightarrow>
             (case find (\<lambda>(fuzzyPatterns, ty, subTy, minLength).
                           list_ex (\<lambda>pattern. js_includes cleanText pattern
                                              \<and> length cleanText \<ge> minLength)
                             fuzzyPatterns)
                        fuzzyMatches of
                Some (fuzzyPatterns, ty, subTy, minLength) \<Rightarrow> Some (ty, subTy)
              | None \<Rightarrow> None))"

record match_result =
  m_type :: jsstring
  m_subType :: jsstring
  m_matchedText :: jsstring

text \<open>One \<^verbatim>\<open>forEach\<close> over a pattern table: every pattern that matches pushes one
  result.\<close>

definition patternResults ::
  "jsstring \<Rightarrow> (jsstring list \<times> jsstring) list \<Rightarrow> jsstring \<Rightarrow> match_result list" where
  "patternResults ty table text =
     List.map_filter
       (\<lambda>(alts, subTy).
          map_option (\<lambda>m. \<lparr> m_type = ty, m_subType = subTy, m_matchedText = m \<rparr>)
            (regexAlt alts text))
       table"

definition smartRecognitionMultiple :: "jsstring \<Rightarrow> match_result list option" where
  "smartRecognitionMultiple text =
     (let results = patternResults ExperienceIssue experiencePatterns text
                  @ patternResults EfficiencyTakeover efficiencyPatterns text
                  @ patternResults SafetyTakeover safetyPatterns text
      in if length results > 0 then Some results else None)"

definition labelResults :: "jsstring \<Rightarrow> jsstring \<Rightarrow> match_result list" where
  "labelResults label text =
     List.map_filter
       (\<lambda>m. (let subTy = js_trim (removeLabel label m)
             in if subTy \<noteq> []
                then Some \<lparr> m_type = label, m_subType = subTy, m_matchedText = m \<rparr>
                else None))
       (keywordMatches label text)"

definition keywordRecognitionMultiple :: "jsstring \<Rightarrow> match_result list option" where
  "keywordRecognitionMultiple text =
     (let results = labelResults ExperienceIssue text
                  @ labelResults SafetyTakeover text
                  @ labelResults EfficiencyTakeover text
      in if length results > 0 then Some results else None)"

definition handleUserQuestions :: "jsstring \<Rightarrow> help_response option" where
  "handleUserQuestions text =
     (let cleanText = js_trim (toLowerCase text)
      in case find (\<lambda>(patterns, response). list_ex (\<lambda>p. js_includes cleanText p) patterns)
                   questionPatterns of
           Some (patterns, response) \<Rightarrow> Some response
         | None \<Rightarrow>
             (if length cleanText = 0
                 \<or> list_all (\<lambda>c. c \<in> set [0x3002, 0xFF0C, 0x2C, 0x2E] \<or> isWhiteSpace c) cleanText
              then Some HelpSpeakClearly
              else None))"

subsection \<open>Dispatch\<close>

text \<open>
  The \<^verbatim>\<open>forEach\<close> loops of \<^verbatim>\<open>processVoiceInput\<close>: one \<^verbatim>\<open>addRecord\<close> call per result, with
  \<^verbatim>\<open>result.matchedText || text\<close> as original text. The clock readings of the \<open>k\<close>-th call
  are \<open>clk k\<close>.
\<close>

fun addRecords ::
  "(nat \<Rightarrow> int \<times> int) \<Rightarrow> nat \<Rightarrow> jsstring \<Rightarrow> match_result list \<Rightarrow> recorder \<Rightarrow> recorder" where
  "addRecords clk k text [] st = st"
| "addRecords clk k text (result # results) st =
     addRecords clk (Suc k) text results
       (addRecord (fst (clk k)) (snd (clk k)) (m_type result) (m_subType result)
          (if m_matchedText result \<noteq> [] then m_matchedText result else text) st)"

definition processVoiceInput :: "(nat \<Rightarrow> int \<times> int) \<Rightarrow> jsstring \<Rightarrow> recorder \<Rightarrow> recorder" where
  "processVoiceInput clk text st0 =
     (let st = emit [ShowDebugInfo (DbgRecognized text), DisplaySubtitle text] st0
      in if js_includes text deletePhrase \<or> js_includes text undoPhrase
         then emit [ShowDebugInfo DbgDeleteDone] (deleteLastRecord st)
         else
           (case directTypeMatching text of
              Some (ty, subTy) \<Rightarrow>
                addRecord (fst (clk 0)) (snd (clk 0)) ty subTy text
                  (emit [ShowDebugInfo (DbgDirectMatch ty)] st)
            | None \<Rightarrow>
                (case smartRecognitionMultiple text of
                   Some smartResults \<Rightarrow>
                     addRecords clk 0 text smartResults
                       (emit [ShowDebugInfo (DbgSmart (length smartResults)
                                               (map m_subType smartResults))] st)
                 | None \<Rightarrow>
                     (case keywordRecognitionMultiple text of
                        Some keywordResults \<Rightarrow>
                          addRecords clk 0 text keywordResults
                            (emit [ShowDebugInfo (DbgKeyword (length keywordResults)
                                                    (map m_subType keywordResults))] st)
                      | None \<Rightarrow>
                          (case handleUserQuestions text of
                             Some questionResult \<Rightarrow> emit [ShowDebugInfo (DbgHelp questionResult)] st
                           | None \<Rightarrow> emit [ShowDebugInfo (DbgNoKeyword text)] st)))))"

text \<open>A code unit that the cleaning of \<^verbatim>\<open>directTypeMatching\<close> keeps as it is: neither
  removed as white space or punctuation nor changed by lower-casing.\<close>

definition plain :: "nat \<Rightarrow> bool" where
  "plain c \<longleftrightarrow> \<not> isSpaceClass c \<and> \<not> isPunctuation c \<and> \<not> (0x41 \<le> c \<and> c \<le> 0x5A)"


section \<open>Reachable recorder states\<close>

text \<open>
  The states the recorder can be in: the constructor's state with whatever records,
  sessions and credentials were found in local storage, followed by any sequence of the
  operations modelled above.
\<close>

inductive reachable :: "recorder \<Rightarrow> bool" where
  loaded: "reachable (initial\<lparr>testData := storedData, testSessions := storedSessions,
                              hasAliyunConfig := configured\<rparr>)"
| started: "reachable st \<Longrightarrow> reachable (startTest sessionId sessionName startIso startMs st)"
| paused: "reachable st \<Longrightarrow> reachable (pauseTest st)"
| stopped: "reachable st \<Longrightarrow> reachable (stopTest endIso st)"
| reset: "reachable st \<Longrightarrow> reachable (resetState st)"
| recorded: "reachable st \<Longrightarrow> reachable (addRecord now stamp ty subTy orig st)"
| heard: "reachable st \<Longrightarrow> reachable (processVoiceInput clk text st)"
| socket: "reachable st \<Longrightarrow> reachable (wsStep event st)"


section \<open>Inputs used in the examples\<close>

text \<open>The two utterances of the specification's classifier examples, the sub-issue
  labels they mention, an utterance asking to undo, and recorder states reached by
  starting a first session, recording in it, stopping it and starting a second one.\<close>

definition utteranceDelimited :: jsstring where
  "utteranceDelimited =
     SafetyTakeover @ [0x2D, 0x538B, 0x7EBF, 0xFF0C] @ EfficiencyTakeover @ [0x2D, 0x5361, 0x6B7B]"

definition utteranceWeaveBrake :: jsstring where
  "utteranceWeaveBrake = [0x8F66, 0x5B50, 0x753B, 0x9F99, 0x53C8, 0x91CD, 0x5239]"

definition utterancePleaseUndo :: jsstring where
  "utterancePleaseUndo = [0x8BF7, 0x64A4, 0x9500]"

definition lanePressing :: jsstring where
  "lanePressing = [0x538B, 0x7EBF]"

definition stuck :: jsstring where
  "stuck = [0x5361, 0x6B7B]"

definition weaving :: jsstring where
  "weaving = [0x753B, 0x9F99]"

definition hardBraking :: jsstring where
  "hardBraking = [0x91CD, 0x5239]"

definition sampleName :: jsstring where
  "sampleName = [0x6D4B, 0x8BD5] @ ascii ''_20250101_080000''"

definition sampleName2 :: jsstring where
  "sampleName2 = [0x6D4B, 0x8BD5] @ ascii ''_20250101_090000''"

definition recording0 :: recorder where
  "recording0 = startTest 1735689600000 sampleName 1735689600000 1735689600000 initial"

definition recording1 :: recorder where
  "recording1 =
     addRecord 1735689660000 1735689660000 SafetyTakeover lanePressing lanePressing recording0"

definition recording2 :: recorder where
  "recording2 =
     startTest 1735693200000 sampleName2 1735693200000 1735693200000
       (stopTest 1735692000000 recording1)"

text \<open>Two \<^verbatim>\<open>addRecord\<close> calls one second and ten seconds after the record of
  \<open>recording1\<close>, each with its two clock readings.\<close>

definition sampleCalls :: "(int \<times> int \<times> jsstring \<times> jsstring \<times> jsstring) list" where
  "sampleCalls =
     [(1735689661000, 1735689661001, ExperienceIssue, weaving, weaving),
      (1735689670000, 1735689670000, ExperienceIssue, hardBraking, [])]"


section \<open>Verification\<close>

subsection \<open>Facts about the conversion\<close>

lemma js_trunc_bounds:
  assumes "- 32768 \<le> x" and "x \<le> 32767"
  shows "- 32768 \<le> js_trunc x \<and> js_trunc x \<le> 32767"
proof (cases "x < 0")
  case True
  with assms have "- 32768 \<le> \<lceil>x\<rceil>" and "\<lceil>x\<rceil> \<le> 0"
    by (simp_all add: le_ceiling_iff ceiling_le_iff)
  with True show ?thesis by (simp add: js_trunc_def)
next
  case False
  with assms have "0 \<le> \<lfloor>x\<rfloor>" and "\<lfloor>x\<rfloor> \<le> 32767"
    by (simp_all add: floor_le_iff le_floor_iff)
  with False show ?thesis by (simp add: js_trunc_def)
qed

lemma scaleSample_bounds:
  assumes "- 1 \<le> s" and "s \<le> 1"
  shows "- 32768 \<le> scaleSample s \<and> scaleSample s \<le> 32767"
  using assms by (auto simp: scaleSample_def)

lemma sint_word16_of_int:
  assumes "- 32768 \<le> k" and "k \<le> 32767"
  shows "sint (word_of_int k :: 16 word) = k"
  using assms by (simp add: int_word_sint)

lemma clampSample_id: "- 1 \<le> s \<Longrightarrow> s \<le> 1 \<Longrightarrow> clampSample s = s"
  by (simp add: clampSample_def)

text \<open>
  C1 (amended). For every sample \<open>s\<close> in \<open>[-1, 1]\<close> the PCM16 value sent is
  \<open>s * 32768\<close> (for negative \<open>s\<close>) or \<open>s * 32767\<close> (otherwise) truncated toward zero; it lies
  in \<open>[-32768, 32767]\<close>, so the 16-bit store does not wrap. At the boundaries
  \<open>1 \<mapsto> 32767\<close>, \<open>-1 \<mapsto> -32768\<close>, \<open>0 \<mapsto> 0\<close>.
\<close>

theorem pcm16_conversion:
  assumes "- 1 \<le> s" and "s \<le> 1"
  shows "sint (float32ToInt16 s) = js_trunc (if s < 0 then s * 32768 else s * 32767)
       \<and> - 32768 \<le> sint (float32ToInt16 s) \<and> sint (float32ToInt16 s) \<le> 32767
       \<and> sint (float32ToInt16 1) = 32767
       \<and> sint (float32ToInt16 (- 1)) = - 32768
       \<and> sint (float32ToInt16 0) = 0"
proof -
  have b: "- 32768 \<le> js_trunc (scaleSample s) \<and> js_trunc (scaleSample s) \<le> 32767"
    using js_trunc_bounds scaleSample_bounds [OF assms] by blast
  have e: "sint (float32ToInt16 s) = js_trunc (scaleSample s)"
    using b by (simp add: float32ToInt16_def toInt16_def clampSample_id [OF assms]
        sint_word16_of_int)
  have one: "sint (float32ToInt16 1) = 32767"
    by (simp add: float32ToInt16_def toInt16_def clampSample_def scaleSample_def js_trunc_def)
  have mone: "sint (float32ToInt16 (- 1)) = - 32768"
    by (simp add: float32ToInt16_def toInt16_def clampSample_def scaleSample_def js_trunc_def)
  have zero: "sint (float32ToInt16 0) = 0"
    by (simp add: float32ToInt16_def toInt16_def clampSample_def scaleSample_def js_trunc_def)
  from e b one mone zero show ?thesis by (simp add: scaleSample_def)
qed

theorem pcm16_conversion_witness:
  "- 1 \<le> (1/2 :: real) \<and> (1/2 :: real) \<le> 1 \<and> sint (float32ToInt16 (1/2)) = 16383"
proof -
  have h1: "- 1 \<le> (1/2 :: real)" and h2: "(1/2 :: real) \<le> 1" by simp_all
  from pcm16_conversion [OF h1 h2]
  have "sint (float32ToInt16 (1/2)) = js_trunc (if (1/2::real) < 0 then 1/2 * 32768 else 1/2 * 32767)"
    by blast
  then show ?thesis by (simp add: js_trunc_def)
qed

text \<open>
  C1 (as stated) fails at \<open>s = 1/2\<close>: the code sends \<open>trunc (0.5 * 32767) = 16383\<close>, while
  \<open>round (0.5 * 32768)\<close> clamped is \<open>16384\<close>.
\<close>

theorem pcm16_round_counterexample:
  "sint (float32ToInt16 (1/2)) = 16383 \<and> spec_pcm16 (1/2) = 16384
   \<and> sint (float32ToInt16 (1/2)) \<noteq> spec_pcm16 (1/2)"
  by (simp add: float32ToInt16_def toInt16_def clampSample_def scaleSample_def js_trunc_def
      spec_pcm16_def round_def)

subsection \<open>Frame lemmas\<close>

lemma emit_fields [simp]:
  "testData (emit es st) = testData st"
  "currentSession (emit es st) = currentSession st"
  "testSessions (emit es st) = testSessions st"
  "isRecording (emit es st) = isRecording st"
  "state (emit es st) = state st"
  "wsReconnectAttempts (emit es st) = wsReconnectAttempts st"
  "effects (emit es st) = effects st @ es"
  by (simp_all add: emit_def)

lemma stopTimer_fields [simp]:
  "testData (stopTimer st) = testData st"
  "currentSession (stopTimer st) = currentSession st"
  "testSessions (stopTimer st) = testSessions st"
  "isRecording (stopTimer st) = isRecording st"
  "state (stopTimer st) = state st"
  by (simp_all add: stopTimer_def)

lemma stopAudioRecording_fields [simp]:
  "testData (stopAudioRecording st) = testData st"
  "currentSession (stopAudioRecording st) = currentSession st"
  "testSessions (stopAudioRecording st) = testSessions st"
  "isRecording (stopAudioRecording st) = isRecording st"
  "state (stopAudioRecording st) = state st"
  by (simp_all add: stopAudioRecording_def sendFinishFrame_def Let_def)

lemma recording0_fields:
  "currentSession recording0 = Some \<lparr> s_id = 1735689600000, s_name = sampleName,
       s_startTime = 1735689600000, s_endTime = None, s_recordCount = 0 \<rparr>"
  "testData recording0 = []"
  "testSessions recording0 = []"
  "isRecording recording0"
  "state recording0 = RECORDING"
  by (simp_all add: recording0_def startTest_def initial_def startTimer_def Let_def)

subsection \<open>The record store\<close>

lemma addRecord_no_session:
  "currentSession st = None \<Longrightarrow> addRecord now stamp ty subTy orig st = st"
  by (simp add: addRecord_def)

lemma addRecord_cases:
  "addRecord now stamp ty subTy orig st = st
   \<or> (\<exists>cs. currentSession st = Some cs
        \<and> addRecord now stamp ty subTy orig st =
            emit [SaveData, UpdateUI, ShowNotification (NoteRecorded ty subTy)]
              (st\<lparr>testData := testData st @
                 [\<lparr> r_id = now, r_timestamp = stamp, r_type = ty, r_subType = subTy,
                    r_originalText = orig, r_sessionId = s_id cs, r_sessionName = s_name cs \<rparr>]\<rparr>))"
  by (auto simp: addRecord_def Let_def split: option.splits)

lemma addRecord_fields [simp]:
  "currentSession (addRecord now stamp ty subTy orig st) = currentSession st"
  "testSessions (addRecord now stamp ty subTy orig st) = testSessions st"
  "isRecording (addRecord now stamp ty subTy orig st) = isRecording st"
  "state (addRecord now stamp ty subTy orig st) = state st"
  using addRecord_cases [of now stamp ty subTy orig st] by auto

lemma addRecord_ids:
  "map r_id (testData (addRecord now stamp ty subTy orig st)) = map r_id (testData st)
   \<or> map r_id (testData (addRecord now stamp ty subTy orig st)) = map r_id (testData st) @ [now]"
  using addRecord_cases [of now stamp ty subTy orig st] by auto

lemma addRecord_suppressed:
  assumes "currentSession st = Some cs"
    and "\<exists>r\<in>set (testData st). r_sessionId r = s_id cs \<and> r_type r = ty \<and> r_subType r = subTy
            \<and> now - r_timestamp r < 5000"
  shows "addRecord now stamp ty subTy orig st = st"
  using assms
  by (auto simp: addRecord_def getCurrentSessionRecords_def find_None_iff split: option.splits)

lemma addRecord_appended:
  assumes "currentSession st = Some cs"
    and "\<forall>r\<in>set (testData st). r_sessionId r = s_id cs \<and> r_type r = ty \<and> r_subType r = subTy
            \<longrightarrow> 5000 \<le> now - r_timestamp r"
  shows "testData (addRecord now stamp ty subTy orig st) =
           testData st @ [\<lparr> r_id = now, r_timestamp = stamp, r_type = ty, r_subType = subTy,
                             r_originalText = orig, r_sessionId = s_id cs,
                             r_sessionName = s_name cs \<rparr>]"
proof -
  have "find (\<lambda>record. r_type record = ty \<and> r_subType record = subTy
                \<and> now - r_timestamp record < 5000) (getCurrentSessionRecords st) = None"
    using assms by (fastforce simp: find_None_iff getCurrentSessionRecords_def)
  then show ?thesis using assms(1) by (simp add: addRecord_def emit_def)
qed

lemma addRecords_no_session:
  "currentSession st = None \<Longrightarrow> addRecords clk k text results st = st"
  by (induction results arbitrary: k) (simp_all add: addRecord_no_session)

lemma recording1_fields:
  "currentSession recording1 = currentSession recording0"
  "testData recording1 =
     [\<lparr> r_id = 1735689660000, r_timestamp = 1735689660000, r_type = SafetyTakeover,
         r_subType = lanePressing, r_originalText = lanePressing,
         r_sessionId = 1735689600000, r_sessionName = sampleName \<rparr>]"
  "testSessions recording1 = []"
  "isRecording recording1"
  "state recording1 = RECORDING"
  using addRecord_appended [OF recording0_fields(1), of SafetyTakeover lanePressing
      1735689660000 1735689660000 lanePressing]
  by (simp_all add: recording1_def recording0_fields)

text \<open>
  C4. With a session open, \<^verbatim>\<open>addRecord\<close> leaves the recorder unchanged when the store
  holds a record of the current session with the same type and subType whose timestamp
  is less than 5000 ms before the call. Adding a pair that has no such recent record,
  then again less than 5000 ms after the first record's timestamp, stores one record (the
  second call changes nothing); adding it once more 5001 ms or later after that
  timestamp stores a second record.
\<close>

theorem addRecord_dedup:
  assumes cur: "currentSession st = Some cs"
  shows "((\<exists>r\<in>set (testData st). r_sessionId r = s_id cs \<and> r_type r = ty \<and> r_subType r = subTy
            \<and> now - r_timestamp r < 5000)
          \<longrightarrow> addRecord now stamp ty subTy orig st = st)
    \<and> ((\<forall>r\<in>set (testData st). r_sessionId r = s_id cs \<and> r_type r = ty \<and> r_subType r = subTy
            \<longrightarrow> 5000 \<le> nowA - r_timestamp r)
        \<and> nowA \<le> nowC \<and> nowB - stampA < 5000 \<and> 5001 \<le> nowC - stampA
        \<longrightarrow> (let first = \<lparr> r_id = nowA, r_timestamp = stampA, r_type = ty, r_subType = subTy,
                            r_originalText = origA, r_sessionId = s_id cs,
                            r_sessionName = s_name cs \<rparr>;
                   third = \<lparr> r_id = nowC, r_timestamp = stampC, r_type = ty, r_subType = subTy,
                            r_originalText = origC, r_sessionId = s_id cs,
                            r_sessionName = s_name cs \<rparr>;
                   st1 = addRecord nowA stampA ty subTy origA st;
                   st2 = addRecord nowB stampB ty subTy origB st1;
                   st3 = addRecord nowC stampC ty subTy origC st2
               in testData st1 = testData st @ [first]
                  \<and> st2 = st1
                  \<and> testData st3 = testData st @ [first, third]))"
proof (intro conjI impI)
  assume "\<exists>r\<in>set (testData st). r_sessionId r = s_id cs \<and> r_type r = ty \<and> r_subType r = subTy
            \<and> now - r_timestamp r < 5000"
  with cur show "addRecord now stamp ty subTy orig st = st"
    by (rule addRecord_suppressed)
next
  let ?first = "\<lparr> r_id = nowA, r_timestamp = stampA, r_type = ty, r_subType = subTy,
                   r_originalText = origA, r_sessionId = s_id cs, r_sessionName = s_name cs \<rparr>"
  let ?st1 = "addRecord nowA stampA ty subTy origA st"
  let ?st2 = "addRecord nowB stampB ty subTy origB ?st1"
  assume a: "(\<forall>r\<in>set (testData st). r_sessionId r = s_id cs \<and> r_type r = ty \<and> r_subType r = subTy
            \<longrightarrow> 5000 \<le> nowA - r_timestamp r)
        \<and> nowA \<le> nowC \<and> nowB - stampA < 5000 \<and> 5001 \<le> nowC - stampA"
  then have old: "\<forall>r\<in>set (testData st). r_sessionId r = s_id cs \<and> r_type r = ty
                     \<and> r_subType r = subTy \<longrightarrow> 5000 \<le> nowA - r_timestamp r"
    and le: "nowA \<le> nowC" and within: "nowB - stampA < 5000" and after: "5001 \<le> nowC - stampA"
    by blast+
  have cur1: "currentSession ?st1 = Some cs" using cur by simp
  have t1: "testData ?st1 = testData st @ [?first]"
    using addRecord_appended [OF cur old] .
  have s2: "?st2 = ?st1"
    by (rule addRecord_suppressed [OF cur1]) (use t1 within in simp)
  have old3: "\<forall>r\<in>set (testData ?st1). r_sessionId r = s_id cs \<and> r_type r = ty
                 \<and> r_subType r = subTy \<longrightarrow> 5000 \<le> nowC - r_timestamp r"
    unfolding t1 using old le after by auto
  have t3: "testData (addRecord nowC stampC ty subTy origC ?st1)
              = testData ?st1 @ [\<lparr> r_id = nowC, r_timestamp = stampC, r_type = ty,
                   r_subType = subTy, r_originalText = origC, r_sessionId = s_id cs,
                   r_sessionName = s_name cs \<rparr>]"
    using addRecord_appended [OF cur1 old3] .
  show "let first = \<lparr> r_id = nowA, r_timestamp = stampA, r_type = ty, r_subType = subTy,
                            r_originalText = origA, r_sessionId = s_id cs,
                            r_sessionName = s_name cs \<rparr>;
                   third = \<lparr> r_id = nowC, r_timestamp = stampC, r_type = ty, r_subType = subTy,
                            r_originalText = origC, r_sessionId = s_id cs,
                            r_sessionName = s_name cs \<rparr>;
                   st1 = addRecord nowA stampA ty subTy origA st;
                   st2 = addRecord nowB stampB ty subTy origB st1;
                   st3 = addRecord nowC stampC ty subTy origC st2
               in testData st1 = testData st @ [first]
                  \<and> st2 = st1
                  \<and> testData st3 = testData st @ [first, third]"
    unfolding Let_def using t1 s2 t3 by simp
qed

text \<open>The example of the specification: the pair (SafetyTakeover, lane pressing) added
  at 0 ms, at 4999 ms and at 5001 ms after the session's first minute.\<close>

theorem addRecord_dedup_witness:
  "currentSession recording0 \<noteq> None
   \<and> map r_id (testData (addRecord 1735689660000 1735689660000 SafetyTakeover lanePressing []
                            recording0)) = [1735689660000]
   \<and> addRecord 1735689664999 1735689664999 SafetyTakeover lanePressing []
        (addRecord 1735689660000 1735689660000 SafetyTakeover lanePressing [] recording0)
      = addRecord 1735689660000 1735689660000 SafetyTakeover lanePressing [] recording0
   \<and> map r_id (testData
        (addRecord 1735689665001 1735689665001 SafetyTakeover lanePressing []
          (addRecord 1735689664999 1735689664999 SafetyTakeover lanePressing []
            (addRecord 1735689660000 1735689660000 SafetyTakeover lanePressing [] recording0))))
      = [1735689660000, 1735689665001]"
proof -
  have pre: "(\<forall>r\<in>set (testData recording0).
                r_sessionId r = s_id \<lparr> s_id = 1735689600000, s_name = sampleName,
                    s_startTime = 1735689600000, s_endTime = None, s_recordCount = 0 \<rparr>
                \<and> r_type r = SafetyTakeover \<and> r_subType r = lanePressing
                \<longrightarrow> 5000 \<le> 1735689660000 - r_timestamp r)
             \<and> (1735689660000 :: int) \<le> 1735689665001
             \<and> (1735689664999 :: int) - 1735689660000 < 5000
             \<and> (5001 :: int) \<le> 1735689665001 - 1735689660000"
    by (simp add: recording0_fields)
  note t = addRecord_dedup [OF recording0_fields(1),
      where ty = SafetyTakeover and subTy = lanePressing
        and nowA = 1735689660000 and stampA = 1735689660000 and origA = "[]"
        and nowB = 1735689664999 and stampB = 1735689664999 and origB = "[]"
        and nowC = 1735689665001 and stampC = 1735689665001 and origC = "[]",
      unfolded Let_def, THEN conjunct2, rule_format, OF pre]
  have cur: "currentSession recording0 \<noteq> None" by (simp add: recording0_fields)
  from t [THEN conjunct1] have a: "map r_id (testData (addRecord 1735689660000 1735689660000
      SafetyTakeover lanePressing [] recording0)) = [1735689660000]"
    by (simp add: recording0_fields)
  from t [THEN conjunct2, THEN conjunct2] have c: "map r_id (testData
        (addRecord 1735689665001 1735689665001 SafetyTakeover lanePressing []
          (addRecord 1735689664999 1735689664999 SafetyTakeover lanePressing []
            (addRecord 1735689660000 1735689660000 SafetyTakeover lanePressing [] recording0))))
      = [1735689660000, 1735689665001]"
    by (simp add: recording0_fields)
  from cur a t [THEN conjunct2, THEN conjunct1] c show ?thesis by blast
qed

text \<open>
  C10. While no session is open (\<^verbatim>\<open>currentSession\<close> is null), \<^verbatim>\<open>addRecord\<close> returns the
  recorder unchanged for every type, subType and original text; consequently
  \<^verbatim>\<open>processVoiceInput\<close> on a transcript without an undo phrase changes neither the record
  store nor the sessions, whatever the classifier finds.
\<close>

theorem addRecord_without_session:
  assumes "currentSession st = None"
  shows "addRecord now stamp ty subTy orig st = st
    \<and> (\<not> js_includes text deletePhrase \<and> \<not> js_includes text undoPhrase
        \<longrightarrow> testData (processVoiceInput clk text st) = testData st
            \<and> currentSession (processVoiceInput clk text st) = None
            \<and> testSessions (processVoiceInput clk text st) = testSessions st)"
proof -
  have "currentSession (emit es (emit es' st)) = None" for es es'
    using assms by simp
  then show ?thesis
    using assms
    by (auto simp: processVoiceInput_def Let_def addRecord_no_session addRecords_no_session
        split: option.splits prod.splits)
qed

subsection \<open>A recording controller has a session\<close>

text \<open>In every reachable state, \<^verbatim>\<open>isRecording\<close> implies that \<^verbatim>\<open>currentSession\<close> is set: the
  flag is raised only by \<^verbatim>\<open>startTest\<close>, after it has created the session, and the session
  is never cleared.\<close>

lemma addRecords_fields [simp]:
  "currentSession (addRecords clk k text results st) = currentSession st"
  "isRecording (addRecords clk k text results st) = isRecording st"
  by (induction results arbitrary: k st) simp_all

lemma processVoiceInput_fields:
  "currentSession (processVoiceInput clk text st) = currentSession st"
  "isRecording (processVoiceInput clk text st) = isRecording st"
  by (auto simp: processVoiceInput_def Let_def deleteLastRecord_def split: option.splits prod.splits)

lemma wsStep_fields:
  "currentSession (wsStep event st) = currentSession st"
  "isRecording (wsStep event st) = isRecording st"
proof -
  have "currentSession (wsStep event st) = currentSession st
        \<and> isRecording (wsStep event st) = isRecording st"
  proof (cases event)
    case (Close code reason)
    then show ?thesis
      by (simp add: onclose_def handleWebSocketReconnect_def Let_def)
  next
    case Open
    then show ?thesis by (simp add: onopen_def sendStartMessage_def)
  next
    case (TimerFired action)
    then show ?thesis
      by (cases action) (simp_all add: handleWebSocketReconnect_def Let_def)
  qed
  then show "currentSession (wsStep event st) = currentSession st"
    and "isRecording (wsStep event st) = isRecording st" by blast+
qed

lemma recording_has_session:
  "reachable st \<Longrightarrow> isRecording st \<Longrightarrow> currentSession st \<noteq> None"
proof (induction rule: reachable.induct)
  case (loaded storedData storedSessions configured)
  then show ?case by (simp add: initial_def)
next
  case (started st sessionId sessionName startIso startMs)
  then show ?case by (auto simp: startTest_def startTimer_def Let_def)
next
  case (paused st)
  then show ?case by (auto simp: pauseTest_def Let_def split: if_splits)
next
  case (stopped st endIso)
  then show ?case by (auto simp: stopTest_def Let_def split: if_splits)
next
  case (reset st)
  then show ?case by (simp add: resetState_def Let_def emit_def split: if_splits)
next
  case (recorded st now stamp ty subTy orig)
  then show ?case by simp
next
  case (heard st clk utterance)
  then show ?case by (simp add: processVoiceInput_fields)
next
  case (socket st event)
  then show ?case by (simp add: wsStep_fields)
qed


subsection \<open>Session lifecycle\<close>

lemma stopTest_not_recording: "\<not> isRecording st \<Longrightarrow> stopTest endIso st = st"
  by (simp add: stopTest_def)

lemma pauseTest_fields:
  "isRecording st \<Longrightarrow> state st = RECORDING \<Longrightarrow> \<not> isRecording (pauseTest st)"
  "testData (pauseTest st) = testData st"
  "currentSession (pauseTest st) = currentSession st"
  "testSessions (pauseTest st) = testSessions st"
  by (simp_all add: pauseTest_def Let_def)

lemma stopTest_sealed:
  assumes "isRecording st" and "currentSession st = Some cs"
  shows "currentSession (stopTest endIso st) =
           Some (cs\<lparr>s_endTime := Some endIso,
                   s_recordCount := length (filter (\<lambda>r. r_sessionId r = s_id cs) (testData st))\<rparr>)"
    and "testSessions (stopTest endIso st) = testSessions st @
           [cs\<lparr>s_endTime := Some endIso,
                s_recordCount := length (filter (\<lambda>r. r_sessionId r = s_id cs) (testData st))\<rparr>]"
    and "testData (stopTest endIso st) = testData st"
    and "\<not> isRecording (stopTest endIso st)"
    and "state (stopTest endIso st) = STOPPED"
  using assms by (simp_all add: stopTest_def Let_def getCurrentSessionRecords_def)

lemma startTest_stopped:
  assumes "\<not> isRecording st" and "state st = STOPPED"
  shows "currentSession (startTest sessionId sessionName startIso startMs st) =
           Some \<lparr> s_id = sessionId, s_name = sessionName, s_startTime = startIso,
                  s_endTime = None, s_recordCount = 0 \<rparr>"
    and "testSessions (startTest sessionId sessionName startIso startMs st) = testSessions st"
    and "testData (startTest sessionId sessionName startIso startMs st) = testData st"
    and "isRecording (startTest sessionId sessionName startIso startMs st)"
    and "state (startTest sessionId sessionName startIso startMs st) = RECORDING"
  using assms by (simp_all add: startTest_def startTimer_def Let_def)

text \<open>
  C8 (amended). \<^verbatim>\<open>stopTest\<close> while recording seals the current session: its end time is
  set, its record count is the number of stored records whose \<^verbatim>\<open>sessionId\<close> is that
  session's id, and a copy is appended to the session history. A following \<^verbatim>\<open>startTest\<close>
  opens a fresh session whose id is the \<^verbatim>\<open>Date.now()\<close> reading of that call; it differs
  from the id of the session just closed exactly when that reading differs from it.
\<close>

theorem stop_seals_session:
  assumes "isRecording st" and "currentSession st = Some cs"
  shows "(let sealed = cs\<lparr>s_endTime := Some endIso,
                         s_recordCount :=
                           length (filter (\<lambda>r. r_sessionId r = s_id cs) (testData st))\<rparr>;
              st1 = stopTest endIso st;
              st2 = startTest sessionId sessionName startIso startMs st1
          in currentSession st1 = Some sealed
             \<and> testSessions st1 = testSessions st @ [sealed]
             \<and> testData st1 = testData st
             \<and> \<not> isRecording st1 \<and> state st1 = STOPPED
             \<and> currentSession st2 =
                 Some \<lparr> s_id = sessionId, s_name = sessionName, s_startTime = startIso,
                        s_endTime = None, s_recordCount = 0 \<rparr>
             \<and> testSessions st2 = testSessions st @ [sealed]
             \<and> (map_option s_id (currentSession st2) \<noteq> Some (s_id sealed)
                  \<longleftrightarrow> sessionId \<noteq> s_id cs))"
  using stopTest_sealed [OF assms, of endIso]
    startTest_stopped [of "stopTest endIso st" sessionId sessionName startIso startMs]
  by (simp add: Let_def)

theorem stop_seals_session_witness:
  "isRecording recording1 \<and> currentSession recording1 \<noteq> None
   \<and> map s_recordCount (testSessions (stopTest 1735692000000 recording1)) = [1]
   \<and> map s_endTime (testSessions (stopTest 1735692000000 recording1)) = [Some 1735692000000]
   \<and> map_option s_id (currentSession recording2) = Some 1735693200000
   \<and> map s_id (testSessions recording2) = [1735689600000]"
  using stop_seals_session [OF recording1_fields(4) recording0_fields(1) [folded recording1_fields(1)],
      of 1735692000000 1735693200000 sampleName2 1735693200000 1735693200000]
  by (simp add: Let_def recording1_fields recording0_fields recording2_def)

text \<open>
  C8 (as stated) fails when the clock reads the same millisecond at both starts: a
  session started at reading 1735689600000, stopped, and followed by a \<^verbatim>\<open>startTest\<close> at
  the same reading gives the new session the id of the session just closed.
\<close>

theorem session_id_counterexample:
  "map s_id (testSessions
      (startTest 1735689600000 sampleName 1735689600000 1735689600000
         (stopTest 1735689600000 recording0))) = [1735689600000]
   \<and> map_option s_id (currentSession
      (startTest 1735689600000 sampleName 1735689600000 1735689600000
         (stopTest 1735689600000 recording0))) = Some 1735689600000"
  using stopTest_sealed [OF recording0_fields(4) recording0_fields(1), of 1735689600000]
    startTest_stopped [of "stopTest 1735689600000 recording0"
      1735689600000 sampleName 1735689600000 1735689600000]
  by (simp add: recording0_fields)

text \<open>
  C9. After \<^verbatim>\<open>pauseTest\<close> on a recording controller, \<^verbatim>\<open>stopTest\<close> returns at once and
  changes nothing: the paused session keeps a null end time, gets no record count and is
  not appended to the history. In general \<^verbatim>\<open>stopTest\<close> is the identity whenever
  \<^verbatim>\<open>isRecording\<close> is false, so the history grows only when it is called while recording.
\<close>

theorem stop_after_pause_noop:
  assumes "isRecording st" and "state st = RECORDING"
  shows "stopTest endIso (pauseTest st) = pauseTest st
    \<and> currentSession (stopTest endIso (pauseTest st)) = currentSession st
    \<and> testSessions (stopTest endIso (pauseTest st)) = testSessions st
    \<and> (\<not> isRecording st' \<longrightarrow> stopTest endIso st' = st')
    \<and> (testSessions (stopTest endIso st') \<noteq> testSessions st' \<longrightarrow> isRecording st')"
proof -
  have np: "\<not> isRecording (pauseTest st)" using assms by (rule pauseTest_fields(1))
  have id: "stopTest endIso (pauseTest st) = pauseTest st"
    using np by (rule stopTest_not_recording)
  have gen: "\<not> isRecording st' \<longrightarrow> stopTest endIso st' = st'"
    by (simp add: stopTest_not_recording)
  then have "testSessions (stopTest endIso st') \<noteq> testSessions st' \<longrightarrow> isRecording st'"
    by auto
  with id gen show ?thesis by (simp add: pauseTest_fields)
qed

theorem stop_after_pause_noop_witness:
  "isRecording recording1 \<and> state recording1 = RECORDING
   \<and> stopTest 1735692000000 (pauseTest recording1) = pauseTest recording1
   \<and> map_option s_endTime (currentSession (stopTest 1735692000000 (pauseTest recording1)))
       = Some None
   \<and> testSessions (stopTest 1735692000000 (pauseTest recording1)) = []"
  using stop_after_pause_noop [OF recording1_fields(4) recording1_fields(5),
      of 1735692000000 "pauseTest recording1"]
  by (simp add: pauseTest_fields recording1_fields recording0_fields)

subsection \<open>Reconnection\<close>

lemma onclose_abnormal:
  "abnormalClose code reason \<Longrightarrow>
     onclose code reason st = handleWebSocketReconnect (st\<lparr>aliyunConnectionReady := False\<rparr>)"
  by (simp add: onclose_def abnormalClose_def Let_def)

lemma handleWebSocketReconnect_below:
  assumes "wsReconnectAttempts st < 3"
  shows "effects (handleWebSocketReconnect st)
           = effects st @ [SetTimeout (2000 * (wsReconnectAttempts st + 1)) ReInitConnection]"
    and "wsReconnectAttempts (handleWebSocketReconnect st) = wsReconnectAttempts st + 1"
  using assms by (simp_all add: handleWebSocketReconnect_def maxReconnectAttempts_def Let_def)

lemma handleWebSocketReconnect_exhausted:
  assumes "3 \<le> wsReconnectAttempts st"
  shows "handleWebSocketReconnect st = emit [ShowDebugInfo DbgConnectionFailed] st"
  using assms by (simp add: handleWebSocketReconnect_def maxReconnectAttempts_def)

lemma onopen_resets: "wsReconnectAttempts (onopen st) = 0"
  by (simp add: onopen_def sendStartMessage_def emit_def)

text \<open>
  C5. Starting with the attempt counter at zero, four abnormal closes in a row (each
  reconnect timer firing and re-initialising the connection, no open in between) produce
  exactly three reconnect timers, with delays 2000, 4000 and 6000 ms; the fourth close
  schedules nothing and reports the connection-failed message, leaving the counter at 3.
  In general an abnormal close with \<open>n < 3\<close> attempts made schedules attempt \<open>n + 1\<close>
  after \<open>2000 * (n + 1)\<close> ms, one with the counter at 3 or more only reports the failure,
  and a successful open resets the counter.
\<close>

theorem reconnect_capped:
  assumes "abnormalClose c1 r1" and "abnormalClose c2 r2"
    and "abnormalClose c3 r3" and "abnormalClose c4 r4"
    and "wsReconnectAttempts st = 0"
  shows "effects (wsRun [Close c1 r1, TimerFired ReInitConnection,
                         Close c2 r2, TimerFired ReInitConnection,
                         Close c3 r3, TimerFired ReInitConnection,
                         Close c4 r4] st)
           = effects st @ [SetTimeout 2000 ReInitConnection, InitWebSocketConnection,
                           SetTimeout 4000 ReInitConnection, InitWebSocketConnection,
                           SetTimeout 6000 ReInitConnection, InitWebSocketConnection,
                           ShowDebugInfo DbgConnectionFailed]
    \<and> wsReconnectAttempts (wsRun [Close c1 r1, TimerFired ReInitConnection,
                         Close c2 r2, TimerFired ReInitConnection,
                         Close c3 r3, TimerFired ReInitConnection,
                         Close c4 r4] st) = 3
    \<and> (abnormalClose c r \<and> wsReconnectAttempts st' < 3
        \<longrightarrow> effects (onclose c r st')
              = effects st' @ [SetTimeout (2000 * (wsReconnectAttempts st' + 1)) ReInitConnection]
            \<and> wsReconnectAttempts (onclose c r st') = wsReconnectAttempts st' + 1)
    \<and> (abnormalClose c r \<and> 3 \<le> wsReconnectAttempts st'
        \<longrightarrow> effects (onclose c r st') = effects st' @ [ShowDebugInfo DbgConnectionFailed]
            \<and> wsReconnectAttempts (onclose c r st') = wsReconnectAttempts st')
    \<and> wsReconnectAttempts (onopen st') = 0"
proof -
  have run: "effects (wsRun [Close c1 r1, TimerFired ReInitConnection,
                         Close c2 r2, TimerFired ReInitConnection,
                         Close c3 r3, TimerFired ReInitConnection,
                         Close c4 r4] st)
           = effects st @ [SetTimeout 2000 ReInitConnection, InitWebSocketConnection,
                           SetTimeout 4000 ReInitConnection, InitWebSocketConnection,
                           SetTimeout 6000 ReInitConnection, InitWebSocketConnection,
                           ShowDebugInfo DbgConnectionFailed]"
    and cnt: "wsReconnectAttempts (wsRun [Close c1 r1, TimerFired ReInitConnection,
                         Close c2 r2, TimerFired ReInitConnection,
                         Close c3 r3, TimerFired ReInitConnection,
                         Close c4 r4] st) = 3"
    using assms
    by (simp_all add: onclose_abnormal handleWebSocketReconnect_def maxReconnectAttempts_def
        emit_def Let_def)
  have below: "abnormalClose c r \<and> wsReconnectAttempts st' < 3
        \<longrightarrow> effects (onclose c r st')
              = effects st' @ [SetTimeout (2000 * (wsReconnectAttempts st' + 1)) ReInitConnection]
            \<and> wsReconnectAttempts (onclose c r st') = wsReconnectAttempts st' + 1"
    by (simp add: onclose_abnormal handleWebSocketReconnect_below)
  have exhausted: "abnormalClose c r \<and> 3 \<le> wsReconnectAttempts st'
        \<longrightarrow> effects (onclose c r st') = effects st' @ [ShowDebugInfo DbgConnectionFailed]
            \<and> wsReconnectAttempts (onclose c r st') = wsReconnectAttempts st'"
    by (simp add: onclose_abnormal handleWebSocketReconnect_exhausted)
  from run cnt below exhausted onopen_resets [of st'] show ?thesis by blast
qed

lemma abnormal_examples:
  "abnormalClose 1011 []" "abnormalClose 1001 []" "abnormalClose 1002 (ascii ''protocol error'')"
  "abnormalClose 1005 []"
  by (simp_all add: abnormalClose_def ascii_def)

theorem reconnect_capped_witness:
  "abnormalClose 1011 [] \<and> abnormalClose 1001 []
   \<and> abnormalClose 1002 (ascii ''protocol error'') \<and> abnormalClose 1005 []
   \<and> wsReconnectAttempts initial = 0
   \<and> effects (wsRun [Close 1011 [], TimerFired ReInitConnection,
                     Close 1001 [], TimerFired ReInitConnection,
                     Close 1002 (ascii ''protocol error''), TimerFired ReInitConnection,
                     Close 1005 []] initial)
       = [SetTimeout 2000 ReInitConnection, InitWebSocketConnection,
          SetTimeout 4000 ReInitConnection, InitWebSocketConnection,
          SetTimeout 6000 ReInitConnection, InitWebSocketConnection,
          ShowDebugInfo DbgConnectionFailed]"
proof -
  have z: "wsReconnectAttempts initial = 0" and e: "effects initial = []"
    by (simp_all add: initial_def)
  from reconnect_capped [OF abnormal_examples z, THEN conjunct1] e abnormal_examples z
  show ?thesis by simp
qed

text \<open>The connection-limit branch (code 1006 or the limit phrase in the reason) waits
  \<^verbatim>\<open>connectionRetryDelay\<close> before it enters the same reconnect routine, so the cap and the
  reconnect delays above apply to it as well.\<close>

lemma connection_limit_close:
  assumes "code \<noteq> 4402"
    and "code = 1006 \<or> js_includes reason (ascii ''over max connect limit'')"
  shows "effects (onclose code reason st)
           = effects st @ [ShowDebugInfo DbgConnectionLimit, SetTimeout 5000 DelayedReconnect]"
    and "wsReconnectAttempts (onclose code reason st) = wsReconnectAttempts st"
    and "wsStep (TimerFired DelayedReconnect) st = handleWebSocketReconnect st"
  using assms by (auto simp: onclose_def connectionRetryDelay_def Let_def)

subsection \<open>Classifier dispatch\<close>

lemmas string_prims = js_trim_def toLowerCase_def isPunctuation_def isSpaceClass_def
  isWhiteSpace_def isDelimiter_def isKeywordStop_def

lemmas labels = SafetyTakeover_def EfficiencyTakeover_def ExperienceIssue_def

lemma deleteLastRecord_testData: "testData (deleteLastRecord st) = butlast (testData st)"
  by (simp add: deleteLastRecord_def Let_def)

lemma deleteLastRecord_fields [simp]:
  "currentSession (deleteLastRecord st) = currentSession st"
  "testSessions (deleteLastRecord st) = testSessions st"
  by (simp_all add: deleteLastRecord_def Let_def)

lemma recording2_fields:
  "testData recording2 = testData recording1"
  "currentSession recording2 =
     Some \<lparr> s_id = 1735693200000, s_name = sampleName2, s_startTime = 1735693200000,
            s_endTime = None, s_recordCount = 0 \<rparr>"
  using stopTest_sealed [OF recording1_fields(4) recording0_fields(1) [folded recording1_fields(1)],
      of 1735692000000]
    startTest_stopped [of "stopTest 1735692000000 recording1"
      1735693200000 sampleName2 1735693200000 1735693200000]
  by (simp_all add: recording2_def)

text \<open>
  C6. For every text that contains the delete phrase or the undo phrase,
  \<^verbatim>\<open>processVoiceInput\<close> does nothing but display the text, call \<^verbatim>\<open>deleteLastRecord\<close> and
  report it: no record is added, the other strategies are not consulted, and the store
  loses its last element whatever session that record or the current session belongs to
  (an empty store stays empty).
\<close>

theorem undo_deletes_last:
  assumes "js_includes text deletePhrase \<or> js_includes text undoPhrase"
  shows "processVoiceInput clk text st =
           emit [ShowDebugInfo DbgDeleteDone]
             (deleteLastRecord
                (emit [ShowDebugInfo (DbgRecognized text), DisplaySubtitle text] st))
    \<and> testData (processVoiceInput clk text st) = butlast (testData st)
    \<and> (testData st = rs @ [r] \<longrightarrow> testData (processVoiceInput clk text st) = rs)
    \<and> currentSession (processVoiceInput clk text st) = currentSession st
    \<and> testSessions (processVoiceInput clk text st) = testSessions st"
proof -
  have eq: "processVoiceInput clk text st =
           emit [ShowDebugInfo DbgDeleteDone]
             (deleteLastRecord
                (emit [ShowDebugInfo (DbgRecognized text), DisplaySubtitle text] st))"
    using assms by (auto simp: processVoiceInput_def Let_def)
  then show ?thesis by (simp add: deleteLastRecord_testData)
qed

text \<open>The store of \<open>recording2\<close> holds one record, of the first session, while the
  second session is current; the undo removes it.\<close>

theorem undo_deletes_last_witness:
  "(js_includes utterancePleaseUndo deletePhrase \<or> js_includes utterancePleaseUndo undoPhrase)
   \<and> map r_sessionId (testData recording2) = [1735689600000]
   \<and> map_option s_id (currentSession recording2) = Some 1735693200000
   \<and> testData (processVoiceInput (\<lambda>k. (1735693260000, 1735693260000))
                  utterancePleaseUndo recording2) = []"
proof -
  have h: "js_includes utterancePleaseUndo deletePhrase \<or> js_includes utterancePleaseUndo undoPhrase"
    by (simp add: utterancePleaseUndo_def deletePhrase_def undoPhrase_def)
  from undo_deletes_last [OF h, of "\<lambda>k. (1735693260000, 1735693260000)" recording2,
      THEN conjunct2, THEN conjunct1] h
  show ?thesis by (simp add: recording2_fields recording1_fields)
qed

lemma weaveBrake_no_control:
  "\<not> js_includes utteranceWeaveBrake deletePhrase" "\<not> js_includes utteranceWeaveBrake undoPhrase"
  by (simp_all add: utteranceWeaveBrake_def deletePhrase_def undoPhrase_def)

lemma weaveBrake_direct: "directTypeMatching utteranceWeaveBrake = None"
  by (simp add: directTypeMatching_def directMatches_def fuzzyMatches_def
      utteranceWeaveBrake_def string_prims labels)

lemma weaveBrake_smart:
  "smartRecognitionMultiple utteranceWeaveBrake =
     Some [\<lparr> m_type = ExperienceIssue, m_subType = weaving, m_matchedText = weaving \<rparr>,
           \<lparr> m_type = ExperienceIssue, m_subType = hardBraking, m_matchedText = hardBraking \<rparr>]"
  by (simp add: smartRecognitionMultiple_def patternResults_def experiencePatterns_def
      efficiencyPatterns_def safetyPatterns_def List.map_filter_def
      utteranceWeaveBrake_def weaving_def hardBraking_def)

lemma processVoiceInput_smart:
  assumes "\<not> js_includes text deletePhrase" "\<not> js_includes text undoPhrase"
    and "directTypeMatching text = None" and "smartRecognitionMultiple text = Some rs"
  shows "processVoiceInput clk text st =
           addRecords clk 0 text rs
             (emit [ShowDebugInfo (DbgSmart (length rs) (map m_subType rs))]
                (emit [ShowDebugInfo (DbgRecognized text), DisplaySubtitle text] st))"
  using assms by (simp add: processVoiceInput_def Let_def)

lemma weaveBrake_records:
  assumes cur: "currentSession st = Some cs"
    and old: "\<forall>r\<in>set (testData st). r_sessionId r = s_id cs \<and> r_type r = ExperienceIssue
                 \<longrightarrow> 5000 \<le> fst (clk 0) - r_timestamp r \<and> 5000 \<le> fst (clk 1) - r_timestamp r"
  shows "testData (processVoiceInput clk utteranceWeaveBrake st) =
           testData st @
             [\<lparr> r_id = fst (clk 0), r_timestamp = snd (clk 0), r_type = ExperienceIssue,
                 r_subType = weaving, r_originalText = weaving,
                 r_sessionId = s_id cs, r_sessionName = s_name cs \<rparr>,
              \<lparr> r_id = fst (clk 1), r_timestamp = snd (clk 1), r_type = ExperienceIssue,
                 r_subType = hardBraking, r_originalText = hardBraking,
                 r_sessionId = s_id cs, r_sessionName = s_name cs \<rparr>]"
proof -
  let ?st0 = "emit [ShowDebugInfo (DbgSmart (Suc (Suc 0)) [weaving, hardBraking])]
                (emit [ShowDebugInfo (DbgRecognized utteranceWeaveBrake),
                       DisplaySubtitle utteranceWeaveBrake] st)"
  let ?st1 = "addRecord (fst (clk 0)) (snd (clk 0)) ExperienceIssue weaving weaving ?st0"
  have ne: "weaving \<noteq> []" "hardBraking \<noteq> []" "weaving \<noteq> hardBraking"
    by (simp_all add: weaving_def hardBraking_def)
  have cur0: "currentSession ?st0 = Some cs" using cur by simp
  have t1: "testData ?st1 = testData st @
             [\<lparr> r_id = fst (clk 0), r_timestamp = snd (clk 0), r_type = ExperienceIssue,
                 r_subType = weaving, r_originalText = weaving,
                 r_sessionId = s_id cs, r_sessionName = s_name cs \<rparr>]"
    using addRecord_appended [OF cur0, of ExperienceIssue weaving "fst (clk 0)"] old by simp
  have cur1: "currentSession ?st1 = Some cs" using cur by simp
  have t2: "testData (addRecord (fst (clk 1)) (snd (clk 1)) ExperienceIssue hardBraking
                        hardBraking ?st1) = testData ?st1 @
             [\<lparr> r_id = fst (clk 1), r_timestamp = snd (clk 1), r_type = ExperienceIssue,
                 r_subType = hardBraking, r_originalText = hardBraking,
                 r_sessionId = s_id cs, r_sessionName = s_name cs \<rparr>]"
    apply (rule addRecord_appended [OF cur1])
    unfolding t1 using old ne by auto
  show ?thesis
    unfolding processVoiceInput_smart [OF weaveBrake_no_control weaveBrake_direct weaveBrake_smart]
    using t1 t2 ne by simp
qed

lemma patternResults_length:
  "length (patternResults ty table text)
     = length (filter (\<lambda>(alts, subTy). regexAlt alts text \<noteq> None) table)"
  by (induction table) (auto simp: patternResults_def List.map_filter_simps split: option.splits)

text \<open>
  C7. The utterance U+8F66 U+5B50 U+753B U+9F99 U+53C8 U+91CD U+5239 contains no control
  phrase and is not matched directly; \<^verbatim>\<open>smartRecognitionMultiple\<close> returns exactly two
  results, both of type ExperienceIssue, with subTypes weaving and hard braking. With a
  session open and no ExperienceIssue record of that session younger than 5000 ms,
  \<^verbatim>\<open>processVoiceInput\<close> appends exactly these two records. For any text, each pattern of a
  table that matches contributes exactly one result.
\<close>

theorem weave_brake_two_records:
  assumes "currentSession st = Some cs"
    and "\<forall>r\<in>set (testData st). r_sessionId r = s_id cs \<and> r_type r = ExperienceIssue
                 \<longrightarrow> 5000 \<le> fst (clk 0) - r_timestamp r \<and> 5000 \<le> fst (clk 1) - r_timestamp r"
  shows "\<not> js_includes utteranceWeaveBrake deletePhrase
    \<and> \<not> js_includes utteranceWeaveBrake undoPhrase
    \<and> directTypeMatching utteranceWeaveBrake = None
    \<and> smartRecognitionMultiple utteranceWeaveBrake =
         Some [\<lparr> m_type = ExperienceIssue, m_subType = weaving, m_matchedText = weaving \<rparr>,
               \<lparr> m_type = ExperienceIssue, m_subType = hardBraking,
                  m_matchedText = hardBraking \<rparr>]
    \<and> testData (processVoiceInput clk utteranceWeaveBrake st) =
         testData st @
           [\<lparr> r_id = fst (clk 0), r_timestamp = snd (clk 0), r_type = ExperienceIssue,
               r_subType = weaving, r_originalText = weaving,
               r_sessionId = s_id cs, r_sessionName = s_name cs \<rparr>,
            \<lparr> r_id = fst (clk 1), r_timestamp = snd (clk 1), r_type = ExperienceIssue,
               r_subType = hardBraking, r_originalText = hardBraking,
               r_sessionId = s_id cs, r_sessionName = s_name cs \<rparr>]
    \<and> length (patternResults ty table text)
         = length (filter (\<lambda>(alts, subTy). regexAlt alts text \<noteq> None) table)"
  using weaveBrake_no_control weaveBrake_direct weaveBrake_smart
    weaveBrake_records [OF assms] patternResults_length [of ty table "text"]
  by blast

theorem weave_brake_two_records_witness:
  "currentSession recording1 \<noteq> None
   \<and> map r_subType (testData (processVoiceInput
         (\<lambda>k. (1735689661000 + int k, 1735689661000 + int k)) utteranceWeaveBrake recording1))
       = [lanePressing, weaving, hardBraking]
   \<and> map r_type (testData (processVoiceInput
         (\<lambda>k. (1735689661000 + int k, 1735689661000 + int k)) utteranceWeaveBrake recording1))
       = [SafetyTakeover, ExperienceIssue, ExperienceIssue]"
proof -
  have cur: "currentSession recording1 = Some \<lparr> s_id = 1735689600000, s_name = sampleName,
       s_startTime = 1735689600000, s_endTime = None, s_recordCount = 0 \<rparr>"
    by (simp add: recording1_fields recording0_fields)
  have old: "\<forall>r\<in>set (testData recording1).
      r_sessionId r = s_id \<lparr> s_id = 1735689600000, s_name = sampleName,
          s_startTime = 1735689600000, s_endTime = None, s_recordCount = 0 \<rparr>
        \<and> r_type r = ExperienceIssue
      \<longrightarrow> 5000 \<le> fst ((\<lambda>k. (1735689661000 + int k, 1735689661000 + int k)) 0) - r_timestamp r
        \<and> 5000 \<le> fst ((\<lambda>k. (1735689661000 + int k, 1735689661000 + int k)) 1) - r_timestamp r"
    by (simp add: recording1_fields labels)
  from weave_brake_two_records [OF cur old] cur show ?thesis
    by (simp add: recording1_fields)
qed

subsection \<open>Record ids\<close>

lemma addRecordCalls_sorted_wrt:
  "sorted_wrt P (map r_id (testData st) @ map fst calls)
   \<Longrightarrow> sorted_wrt P (map r_id (testData (addRecordCalls calls st)))"
proof (induction calls arbitrary: st)
  case Nil
  then show ?case by simp
next
  case (Cons call calls)
  obtain now stamp ty subTy orig where call: "call = (now, stamp, ty, subTy, orig)"
    by (cases call) auto
  define ids where "ids = map r_id (testData st)"
  define ids' where "ids' = map r_id (testData (addRecord now stamp ty subTy orig st))"
  define rest where "rest = map fst calls"
  from Cons.prems call
  have s: "sorted_wrt P (ids @ now # rest)" by (simp add: ids_def rest_def)
  have "ids' = ids \<or> ids' = ids @ [now]"
    unfolding ids_def ids'_def by (rule addRecord_ids)
  with s have "sorted_wrt P (ids' @ rest)"
    by (auto simp: sorted_wrt_append)
  then have "sorted_wrt P (map r_id (testData (addRecord now stamp ty subTy orig st))
                            @ map fst calls)"
    by (simp add: ids'_def rest_def)
  from Cons.IH [OF this] call show ?case by simp
qed

lemma sorted_wrt_of_subseq:
  "subseq xs ys \<Longrightarrow> sorted_wrt P ys \<Longrightarrow> sorted_wrt P xs"
proof (induction rule: list_emb.induct)
  case (list_emb_Nil ys)
  then show ?case by simp
next
  case (list_emb_Cons xs ys y)
  then show ?case by simp
next
  case (list_emb_Cons2 x y xs ys)
  then have "\<forall>z\<in>set xs. P x z"
    by (auto elim!: list_emb_set)
  with list_emb_Cons2 show ?case by simp
qed

lemma set_of_subseq: "subseq xs ys \<Longrightarrow> set xs \<subseteq> set ys"
  by (auto elim!: list_emb_set)

text \<open>The ids a run of calls leaves in the store: the ids stored before, followed by
  the readings of those calls that appended, in call order.\<close>

lemma addRecordCalls_ids:
  "\<exists>ns. subseq ns (map fst calls)
        \<and> map r_id (testData (addRecordCalls calls st)) = map r_id (testData st) @ ns"
proof (induction calls arbitrary: st)
  case Nil
  show ?case by simp
next
  case (Cons call calls)
  obtain now stamp ty subTy orig where call: "call = (now, stamp, ty, subTy, orig)"
    by (cases call) auto
  let ?st' = "addRecord now stamp ty subTy orig st"
  from Cons.IH [of ?st'] obtain ns where sub: "subseq ns (map fst calls)"
    and ids: "map r_id (testData (addRecordCalls calls ?st')) = map r_id (testData ?st') @ ns"
    by blast
  from addRecord_ids [of now stamp ty subTy orig st]
  show ?case
  proof
    assume "map r_id (testData ?st') = map r_id (testData st)"
    with sub ids call
    have "subseq ns (map fst (call # calls))
          \<and> map r_id (testData (addRecordCalls (call # calls) st)) = map r_id (testData st) @ ns"
      by (simp add: list_emb_Cons)
    then show ?thesis by blast
  next
    assume "map r_id (testData ?st') = map r_id (testData st) @ [now]"
    with sub ids call
    have "subseq (now # ns) (map fst (call # calls))
          \<and> map r_id (testData (addRecordCalls (call # calls) st))
              = map r_id (testData st) @ (now # ns)"
      by simp
    then show ?thesis by blast
  qed
qed

text \<open>
  C3 (amended). Every \<^verbatim>\<open>addRecord\<close> call either leaves the store as it is or appends
  exactly one record, whose id is the \<^verbatim>\<open>Date.now()\<close> reading of that call; after a run of
  calls the stored ids are the ids stored before followed by the readings of the calls
  that appended, in order. Hence, if the ids stored before are pairwise distinct and the
  readings of the run are strictly increasing and above every id stored before, no two
  stored records have the same id afterwards; if the ids stored before followed by the
  readings are strictly increasing, so are the stored ids afterwards; and if they are
  non-decreasing, the stored ids afterwards are non-decreasing.
\<close>

theorem addRecord_ids_monotonic:
  "(testData (addRecord now stamp ty subTy orig st) = testData st
      \<or> (\<exists>r. testData (addRecord now stamp ty subTy orig st) = testData st @ [r]
              \<and> r_id r = now))
   \<and> (\<exists>ns. subseq ns (map fst calls)
          \<and> map r_id (testData (addRecordCalls calls st)) = map r_id (testData st) @ ns)
   \<and> (distinct (map r_id (testData st)) \<and> sorted_wrt (<) (map fst calls)
        \<and> (\<forall>i\<in>set (map r_id (testData st)). \<forall>n\<in>set (map fst calls). i < n)
      \<longrightarrow> distinct (map r_id (testData (addRecordCalls calls st))))
   \<and> (sorted_wrt (<) (map r_id (testData st) @ map fst calls)
      \<longrightarrow> sorted_wrt (<) (map r_id (testData (addRecordCalls calls st)))
          \<and> distinct (map r_id (testData (addRecordCalls calls st))))
   \<and> (sorted (map r_id (testData st) @ map fst calls)
      \<longrightarrow> sorted (map r_id (testData (addRecordCalls calls st))))"
proof (intro conjI impI)
  show "testData (addRecord now stamp ty subTy orig st) = testData st
      \<or> (\<exists>r. testData (addRecord now stamp ty subTy orig st) = testData st @ [r]
              \<and> r_id r = now)"
    using addRecord_cases [of now stamp ty subTy orig st] by auto
next
  show "\<exists>ns. subseq ns (map fst calls)
          \<and> map r_id (testData (addRecordCalls calls st)) = map r_id (testData st) @ ns"
    by (rule addRecordCalls_ids)
next
  assume a: "distinct (map r_id (testData st)) \<and> sorted_wrt (<) (map fst calls)
        \<and> (\<forall>i\<in>set (map r_id (testData st)). \<forall>n\<in>set (map fst calls). i < n)"
  from addRecordCalls_ids [of calls st] obtain ns where sub: "subseq ns (map fst calls)"
    and ids: "map r_id (testData (addRecordCalls calls st)) = map r_id (testData st) @ ns"
    by blast
  from sub a have "sorted_wrt (<) ns" by (blast intro: sorted_wrt_of_subseq)
  then have d: "distinct ns" by (simp add: strict_sorted_iff)
  from sub have "set ns \<subseteq> set (map fst calls)" by (rule set_of_subseq)
  with a have "set (map r_id (testData st)) \<inter> set ns = {}" by fastforce
  with a d show "distinct (map r_id (testData (addRecordCalls calls st)))"
    unfolding ids by simp
next
  assume a: "sorted_wrt (<) (map r_id (testData st) @ map fst calls)"
  from addRecordCalls_sorted_wrt [OF a]
  show s: "sorted_wrt (<) (map r_id (testData (addRecordCalls calls st)))" .
  then show "distinct (map r_id (testData (addRecordCalls calls st)))"
    by (simp add: strict_sorted_iff)
next
  assume "sorted (map r_id (testData st) @ map fst calls)"
  then show "sorted (map r_id (testData (addRecordCalls calls st)))"
    using addRecordCalls_sorted_wrt [of "(\<le>)" st calls] by simp
qed

text \<open>The two calls of \<open>sampleCalls\<close> after the first record of \<open>recording1\<close> name
  different sub-issues: both append, and the three stored ids are the three readings.\<close>

lemma recording1_two_calls:
  "map r_id (testData (addRecordCalls sampleCalls recording1))
     = [1735689660000, 1735689661000, 1735689670000]"
proof -
  have cur: "currentSession recording1 = Some \<lparr> s_id = 1735689600000, s_name = sampleName,
       s_startTime = 1735689600000, s_endTime = None, s_recordCount = 0 \<rparr>"
    by (simp add: recording1_fields recording0_fields)
  let ?st1 = "addRecord 1735689661000 1735689661001 ExperienceIssue weaving weaving recording1"
  have ne: "SafetyTakeover \<noteq> ExperienceIssue" "weaving \<noteq> hardBraking"
    by (simp_all add: SafetyTakeover_def ExperienceIssue_def weaving_def hardBraking_def)
  have t1: "testData ?st1 = testData recording1 @
      [\<lparr> r_id = 1735689661000, r_timestamp = 1735689661001, r_type = ExperienceIssue,
          r_subType = weaving, r_originalText = weaving,
          r_sessionId = 1735689600000, r_sessionName = sampleName \<rparr>]"
    using addRecord_appended [OF cur, of ExperienceIssue weaving 1735689661000
        1735689661001 weaving] ne
    by (simp add: recording1_fields)
  have cur1: "currentSession ?st1 = Some \<lparr> s_id = 1735689600000, s_name = sampleName,
       s_startTime = 1735689600000, s_endTime = None, s_recordCount = 0 \<rparr>"
    using cur by simp
  have t2: "testData (addRecord 1735689670000 1735689670000 ExperienceIssue hardBraking []
                        ?st1) = testData ?st1 @
      [\<lparr> r_id = 1735689670000, r_timestamp = 1735689670000, r_type = ExperienceIssue,
          r_subType = hardBraking, r_originalText = [],
          r_sessionId = 1735689600000, r_sessionName = sampleName \<rparr>]"
    apply (rule addRecord_appended [OF cur1, simplified])
    unfolding t1 using ne by (auto simp: recording1_fields)
  show ?thesis using t1 t2 by (simp add: sampleCalls_def recording1_fields)
qed

theorem addRecord_ids_monotonic_witness:
  "map r_id (testData recording1) = [1735689660000]
   \<and> map fst sampleCalls = [1735689661000, 1735689670000]
   \<and> map r_id (testData (addRecordCalls sampleCalls recording1))
       = [1735689660000, 1735689661000, 1735689670000]
   \<and> distinct (map r_id (testData (addRecordCalls sampleCalls recording1)))
   \<and> sorted_wrt (<) (map r_id (testData (addRecordCalls sampleCalls recording1)))"
proof -
  have ids: "map r_id (testData recording1) = [1735689660000]"
    and nows: "map fst sampleCalls = [1735689661000, 1735689670000]"
    by (simp_all add: recording1_fields sampleCalls_def)
  have pre: "distinct (map r_id (testData recording1)) \<and> sorted_wrt (<) (map fst sampleCalls)
        \<and> (\<forall>i\<in>set (map r_id (testData recording1)). \<forall>n\<in>set (map fst sampleCalls). i < n)"
    unfolding ids nows by simp
  have pre2: "sorted_wrt (<) (map r_id (testData recording1) @ map fst sampleCalls)"
    unfolding ids nows by simp
  note t = addRecord_ids_monotonic [where st = recording1 and calls = sampleCalls]
  from t [THEN conjunct2, THEN conjunct2, THEN conjunct1, rule_format, OF pre]
  have d: "distinct (map r_id (testData (addRecordCalls sampleCalls recording1)))" .
  from t [THEN conjunct2, THEN conjunct2, THEN conjunct2, THEN conjunct1, rule_format, OF pre2]
  have s: "sorted_wrt (<) (map r_id (testData (addRecordCalls sampleCalls recording1)))"
    by blast
  show ?thesis
    by (intro conjI) (rule ids nows recording1_two_calls d s)+
qed

text \<open>
  C3 (as stated) fails for the two records of one multi-pattern utterance when both
  \<^verbatim>\<open>addRecord\<close> calls read the same millisecond: both records get that reading as id.
\<close>

theorem ids_unique_counterexample:
  "map r_id (testData (processVoiceInput (\<lambda>k. (1735689660000, 1735689660000))
                          utteranceWeaveBrake recording0))
     = [1735689660000, 1735689660000]
   \<and> \<not> distinct (map r_id (testData (processVoiceInput (\<lambda>k. (1735689660000, 1735689660000))
                          utteranceWeaveBrake recording0)))"
proof -
  have "testData (processVoiceInput (\<lambda>k. (1735689660000, 1735689660000))
                          utteranceWeaveBrake recording0) =
           [\<lparr> r_id = 1735689660000, r_timestamp = 1735689660000, r_type = ExperienceIssue,
                 r_subType = weaving, r_originalText = weaving,
                 r_sessionId = 1735689600000, r_sessionName = sampleName \<rparr>,
              \<lparr> r_id = 1735689660000, r_timestamp = 1735689660000, r_type = ExperienceIssue,
                 r_subType = hardBraking, r_originalText = hardBraking,
                 r_sessionId = 1735689600000, r_sessionName = sampleName \<rparr>]"
    using weaveBrake_records [OF recording0_fields(1), of "\<lambda>k. (1735689660000, 1735689660000)"]
    by (simp add: recording0_fields(2))
  then show ?thesis by simp
qed

subsection \<open>The delimiter strategy is shadowed\<close>

text \<open>
  Whenever \<^verbatim>\<open>keywordRecognitionMultiple\<close> finds anything, the text contains one of the three
  category names; the name survives the cleaning of \<^verbatim>\<open>directTypeMatching\<close> and is the first
  pattern of its group, so the direct strategy matches and \<^verbatim>\<open>processVoiceInput\<close> returns
  before the delimiter strategy is reached.
\<close>

lemma js_includes_iff: "js_includes t p \<longleftrightarrow> (\<exists>a b. t = a @ p @ b)"
proof (induction t)
  case Nil
  then show ?case by auto
next
  case (Cons c cs)
  show ?case
  proof
    assume "js_includes (c # cs) p"
    then consider "prefix p (c # cs)" | "js_includes cs p" by auto
    then show "\<exists>a b. c # cs = a @ p @ b"
    proof cases
      case 1
      then obtain b where "c # cs = p @ b" by (auto simp: prefix_def)
      then have "c # cs = [] @ p @ b" by simp
      then show ?thesis by blast
    next
      case 2
      with Cons.IH obtain a b where "cs = a @ p @ b" by blast
      then have "c # cs = (c # a) @ p @ b" by simp
      then show ?thesis by blast
    qed
  next
    assume "\<exists>a b. c # cs = a @ p @ b"
    then obtain a b where ab: "c # cs = a @ p @ b" by blast
    show "js_includes (c # cs) p"
    proof (cases a)
      case Nil
      with ab have "prefix p (c # cs)" by (simp add: prefix_def)
      then show ?thesis by simp
    next
      case (Cons x a')
      with ab have "cs = a' @ p @ b" by simp
      with Cons.IH have "js_includes cs p" by blast
      then show ?thesis by simp
    qed
  qed
qed

lemma keywordAt_prefix: "keywordAt label s = Some m \<Longrightarrow> prefix label s"
  by (auto simp: keywordAt_def split: if_splits)

lemma keywordMatches_includes:
  "keywordMatches label text \<noteq> [] \<Longrightarrow> js_includes text label"
proof (induction label "text" rule: keywordMatches.induct)
  case (1 label)
  then show ?case by simp
next
  case (2 label c cs)
  show ?case
  proof (cases "keywordAt label (c # cs)")
    case None
    with 2 show ?thesis by simp
  next
    case (Some m)
    then show ?thesis using keywordAt_prefix by fastforce
  qed
qed

lemma labelResults_includes: "labelResults label text \<noteq> [] \<Longrightarrow> js_includes text label"
proof -
  assume "labelResults label text \<noteq> []"
  then have "keywordMatches label text \<noteq> []"
    by (auto simp: labelResults_def List.map_filter_def)
  then show ?thesis by (rule keywordMatches_includes)
qed

lemma dropWhile_none: "\<forall>x\<in>set xs. \<not> P x \<Longrightarrow> dropWhile P xs = xs"
  by (cases xs) auto

lemma isWhiteSpace_upper: "0x41 \<le> c \<Longrightarrow> c \<le> 0x5A \<Longrightarrow> \<not> isWhiteSpace (c + 0x20)"
  by (simp add: isWhiteSpace_def)

lemma isWhiteSpace_isSpaceClass: "isWhiteSpace c \<Longrightarrow> isSpaceClass c"
  by (simp add: isSpaceClass_def)

lemma toLowerCase_not_space:
  assumes "\<forall>c\<in>set s. \<not> isSpaceClass c"
  shows "\<forall>c\<in>set (toLowerCase s). \<not> isWhiteSpace c"
proof
  fix d assume "d \<in> set (toLowerCase s)"
  then obtain c where c: "c \<in> set s"
    and d: "d = (if 0x41 \<le> c \<and> c \<le> 0x5A then c + 0x20 else c)"
    by (auto simp: toLowerCase_def)
  show "\<not> isWhiteSpace d"
  proof (cases "0x41 \<le> c \<and> c \<le> 0x5A")
    case True
    then show ?thesis using d isWhiteSpace_upper by simp
  next
    case False
    then show ?thesis using d c assms isWhiteSpace_isSpaceClass by auto
  qed
qed

lemma clean_includes:
  assumes inc: "js_includes text label" and pl: "\<forall>c\<in>set label. plain c"
  shows "js_includes (js_trim (toLowerCase
            (filter (\<lambda>c. \<not> isPunctuation c) (filter (\<lambda>c. \<not> isSpaceClass c) text)))) label"
proof -
  let ?f = "\<lambda>s. toLowerCase (filter (\<lambda>c. \<not> isPunctuation c) (filter (\<lambda>c. \<not> isSpaceClass c) s))"
  from inc obtain a b where t: "text = a @ label @ b" by (auto simp: js_includes_iff)
  have lab: "?f label = label"
    using pl by (simp add: toLowerCase_def plain_def map_idI)
  have "?f text = ?f a @ ?f label @ ?f b" by (simp add: t toLowerCase_def)
  with lab have inc': "js_includes (?f text) label" by (auto simp: js_includes_iff)
  have "\<forall>c\<in>set (?f text). \<not> isWhiteSpace c"
    by (rule toLowerCase_not_space) simp
  then have "js_trim (?f text) = ?f text"
    by (simp add: js_trim_def dropWhile_none)
  with inc' show ?thesis by simp
qed

lemma direct_of_label:
  assumes inc: "js_includes text label"
    and lab: "label = SafetyTakeover \<or> label = EfficiencyTakeover \<or> label = ExperienceIssue"
  shows "directTypeMatching text \<noteq> None"
proof -
  define clean where "clean = js_trim (toLowerCase
            (filter (\<lambda>c. \<not> isPunctuation c) (filter (\<lambda>c. \<not> isSpaceClass c) text)))"
  define P where "P = (\<lambda>(patterns :: jsstring list, ty :: jsstring, subTy :: jsstring).
              list_ex (\<lambda>pattern.
                 (let cleanPattern = filter (\<lambda>c. \<not> isSpaceClass c) (toLowerCase pattern)
                  in clean = cleanPattern \<or> js_includes clean cleanPattern)) patterns)"
  have pl: "\<forall>c\<in>set label. plain c"
    using lab by (elim disjE)
      (simp_all add: plain_def SafetyTakeover_def EfficiencyTakeover_def
        ExperienceIssue_def isSpaceClass_def isWhiteSpace_def isPunctuation_def)
  have ci: "js_includes clean label"
    unfolding clean_def using clean_includes [OF inc pl] .
  have cp: "filter (\<lambda>c. \<not> isSpaceClass c) (toLowerCase label) = label"
    using pl by (simp add: toLowerCase_def plain_def map_idI)
  have "\<exists>g\<in>set directMatches. label \<in> set (fst g)"
    using lab by (elim disjE)
      (simp_all add: directMatches_def SafetyTakeover_def EfficiencyTakeover_def
        ExperienceIssue_def)
  then obtain g where g: "g \<in> set directMatches" and lg: "label \<in> set (fst g)" by blast
  obtain patterns ty subTy where gg: "g = (patterns, ty, subTy)" by (cases g) auto
  have "list_ex (\<lambda>pattern.
                 (let cleanPattern = filter (\<lambda>c. \<not> isSpaceClass c) (toLowerCase pattern)
                  in clean = cleanPattern \<or> js_includes clean cleanPattern)) patterns"
    unfolding list_ex_iff Let_def
  proof (rule bexI [of _ label])
    show "clean = filter (\<lambda>c. \<not> isSpaceClass c) (toLowerCase label)
          \<or> js_includes clean (filter (\<lambda>c. \<not> isSpaceClass c) (toLowerCase label))"
      unfolding cp using ci by blast
    show "label \<in> set patterns" using lg gg by simp
  qed
  then have "P g" by (simp add: P_def gg)
  with g have "find P directMatches \<noteq> None"
    unfolding find_None_iff by blast
  then obtain x where x: "find P directMatches = Some x" by blast
  have "directTypeMatching text = (case find P directMatches of
           Some (patterns, ty, subTy) \<Rightarrow> Some (ty, subTy)
         | None \<Rightarrow>
             (case find (\<lambda>(fuzzyPatterns, ty, subTy, minLength).
                           list_ex (\<lambda>pattern. js_includes clean pattern
                                              \<and> length clean \<ge> minLength)
                             fuzzyPatterns)
                        fuzzyMatches of
                Some (fuzzyPatterns, ty, subTy, minLength) \<Rightarrow> Some (ty, subTy)
              | None \<Rightarrow> None))"
    unfolding directTypeMatching_def clean_def P_def Let_def ..
  then show ?thesis unfolding x by (cases x) simp
qed

lemma keyword_strategy_shadowed:
  "keywordRecognitionMultiple text \<noteq> None \<Longrightarrow> directTypeMatching text \<noteq> None"
proof -
  assume "keywordRecognitionMultiple text \<noteq> None"
  then have "labelResults ExperienceIssue text \<noteq> [] \<or> labelResults SafetyTakeover text \<noteq> []
             \<or> labelResults EfficiencyTakeover text \<noteq> []"
    by (auto simp: keywordRecognitionMultiple_def Let_def split: if_splits)
  then obtain label where "js_includes text label"
    and "label = SafetyTakeover \<or> label = EfficiencyTakeover \<or> label = ExperienceIssue"
    using labelResults_includes by blast
  then show ?thesis by (rule direct_of_label)
qed

subsection \<open>The delimited utterance\<close>

lemma delimited_no_control:
  "\<not> js_includes utteranceDelimited deletePhrase" "\<not> js_includes utteranceDelimited undoPhrase"
  by (simp_all add: utteranceDelimited_def deletePhrase_def undoPhrase_def labels)

lemma delimited_direct:
  "directTypeMatching utteranceDelimited = Some (SafetyTakeover, SafetyTakeover)"
  by (simp add: directTypeMatching_def directMatches_def fuzzyMatches_def
      utteranceDelimited_def string_prims labels)

lemma delimited_keyword:
  "keywordRecognitionMultiple utteranceDelimited =
     Some [\<lparr> m_type = SafetyTakeover, m_subType = lanePressing,
              m_matchedText = SafetyTakeover @ [0x2D] @ lanePressing \<rparr>,
           \<lparr> m_type = EfficiencyTakeover, m_subType = stuck,
              m_matchedText = EfficiencyTakeover @ [0x2D] @ stuck \<rparr>]"
  by (simp add: keywordRecognitionMultiple_def labelResults_def keywordAt_def
      List.map_filter_def utteranceDelimited_def lanePressing_def stuck_def string_prims labels)

text \<open>
  C2, evaluated. On the utterance \<open>SafetyTakeover-<lane pressing>, EfficiencyTakeover-<stuck>\<close>
  the direct strategy already matches the category name, so \<^verbatim>\<open>processVoiceInput\<close> stores a
  single record of type and subType SafetyTakeover with the whole utterance as text; the
  delimiter strategy, which alone would return two records with subTypes lane pressing
  and stuck, is never consulted.
\<close>

theorem delimited_utterance_single_record:
  "directTypeMatching utteranceDelimited = Some (SafetyTakeover, SafetyTakeover)
   \<and> testData (processVoiceInput (\<lambda>k. (1735689660000, 1735689660000))
                  utteranceDelimited recording0)
       = [\<lparr> r_id = 1735689660000, r_timestamp = 1735689660000, r_type = SafetyTakeover,
             r_subType = SafetyTakeover, r_originalText = utteranceDelimited,
             r_sessionId = 1735689600000, r_sessionName = sampleName \<rparr>]
   \<and> keywordRecognitionMultiple utteranceDelimited =
       Some [\<lparr> m_type = SafetyTakeover, m_subType = lanePressing,
                m_matchedText = SafetyTakeover @ [0x2D] @ lanePressing \<rparr>,
             \<lparr> m_type = EfficiencyTakeover, m_subType = stuck,
                m_matchedText = EfficiencyTakeover @ [0x2D] @ stuck \<rparr>]"
proof -
  let ?st0 = "emit [ShowDebugInfo (DbgDirectMatch SafetyTakeover)]
                (emit [ShowDebugInfo (DbgRecognized utteranceDelimited),
                       DisplaySubtitle utteranceDelimited] recording0)"
  have cur0: "currentSession ?st0 = Some \<lparr> s_id = 1735689600000, s_name = sampleName,
       s_startTime = 1735689600000, s_endTime = None, s_recordCount = 0 \<rparr>"
    by (simp add: recording0_fields)
  have "processVoiceInput (\<lambda>k. (1735689660000, 1735689660000)) utteranceDelimited recording0
          = addRecord 1735689660000 1735689660000 SafetyTakeover SafetyTakeover
              utteranceDelimited ?st0"
    using delimited_no_control delimited_direct by (simp add: processVoiceInput_def Let_def)
  moreover have "testData (addRecord 1735689660000 1735689660000 SafetyTakeover SafetyTakeover
              utteranceDelimited ?st0)
       = [\<lparr> r_id = 1735689660000, r_timestamp = 1735689660000, r_type = SafetyTakeover,
             r_subType = SafetyTakeover, r_originalText = utteranceDelimited,
             r_sessionId = 1735689600000, r_sessionName = sampleName \<rparr>]"
    using addRecord_appended [OF cur0, of SafetyTakeover SafetyTakeover 1735689660000
        1735689660000 utteranceDelimited]
    by (simp add: recording0_fields)
  ultimately show ?thesis using delimited_direct delimited_keyword by simp
qed

theorem addRecord_without_session_witness:
  "currentSession initial = None
   \<and> \<not> js_includes utteranceDelimited deletePhrase \<and> \<not> js_includes utteranceDelimited undoPhrase
   \<and> directTypeMatching utteranceDelimited \<noteq> None
   \<and> addRecord 1735689660000 1735689660000 SafetyTakeover SafetyTakeover utteranceDelimited
        initial = initial
   \<and> testData (processVoiceInput (\<lambda>k. (1735689660000, 1735689660000))
                  utteranceDelimited initial) = []"
proof -
  have n: "currentSession initial = None" and e: "testData initial = []"
    by (simp_all add: initial_def)
  from addRecord_without_session [OF n, of 1735689660000 1735689660000 SafetyTakeover
      SafetyTakeover utteranceDelimited utteranceDelimited
      "\<lambda>k. (1735689660000, 1735689660000)"]
    n e delimited_no_control delimited_direct
  show ?thesis by simp
qed

end
